theory Spec2Isabelle
  imports Complex_Main
begin

section \<open>Python string primitives\<close>

text \<open>
  The source is Python. A \<open>str\<close> is modelled as a \<^typ>\<open>string\<close> whose characters are
  read as ASCII code points: whitespace, line boundaries and letter case are the ASCII
  ones of \<open>str.isspace\<close>, \<open>str.splitlines\<close> and \<open>str.lower\<close>. A Python \<open>float\<close> is
  modelled as the \<^typ>\<open>real\<close> it denotes. The subtraction \<open>10.0 - mood\<close> of the row builder
  is rounded to the nearest double, as the machine does; the other arithmetic is exact.
\<close>

definition is_space :: "char \<Rightarrow> bool" where
  \<comment> \<open>\<open>str.isspace\<close> on one ASCII character: tab, LF, VT, FF, CR, FS, GS, RS, US, space.\<close>
  "is_space c = (c \<in> set [CHR 0x09, CHR 0x0A, CHR 0x0B, CHR 0x0C, CHR 0x0D,
                            CHR 0x1C, CHR 0x1D, CHR 0x1E, CHR 0x1F, CHR 0x20])"

definition is_digit :: "char \<Rightarrow> bool" where
  "is_digit c = (c \<in> set ''0123456789'')"

definition lower_char :: "char \<Rightarrow> char" where
  "lower_char c =
     (case map_of (zip ''ABCDEFGHIJKLMNOPQRSTUVWXYZ'' ''abcdefghijklmnopqrstuvwxyz'') c of
        Some d \<Rightarrow> d
      | None \<Rightarrow> c)"

definition py_lower :: "string \<Rightarrow> string" where
  \<comment> \<open>\<open>s.lower()\<close>\<close>
  "py_lower s = map lower_char s"

definition strip_chars :: "(char \<Rightarrow> bool) \<Rightarrow> string \<Rightarrow> string" where
  \<comment> \<open>removes the characters satisfying \<open>p\<close> from both ends\<close>
  "strip_chars p s = rev (dropWhile p (rev (dropWhile p s)))"

definition py_strip :: "string \<Rightarrow> string" where
  \<comment> \<open>\<open>s.strip()\<close>\<close>
  "py_strip s = strip_chars is_space s"

definition py_strip_of :: "string \<Rightarrow> string \<Rightarrow> string" where
  \<comment> \<open>\<open>s.strip(chars)\<close>\<close>
  "py_strip_of chars s = strip_chars (\<lambda>c. c \<in> set chars) s"

fun split_ws :: "string \<Rightarrow> string \<Rightarrow> string list" where
  \<comment> \<open>\<open>s.split()\<close> with the word read so far as first argument\<close>
  "split_ws cur [] = (if cur = [] then [] else [cur])"
| "split_ws cur (c # cs) =
     (if is_space c then (if cur = [] then split_ws [] cs else cur # split_ws [] cs)
      else split_ws (cur @ [c]) cs)"

definition py_split :: "string \<Rightarrow> string list" where
  \<comment> \<open>\<open>s.split()\<close>: the maximal runs of non-whitespace characters\<close>
  "py_split s = split_ws [] s"

fun split_on :: "char \<Rightarrow> string \<Rightarrow> string \<Rightarrow> string list" where
  "split_on sep cur [] = [cur]"
| "split_on sep cur (c # cs) =
     (if c = sep then cur # split_on sep [] cs else split_on sep (cur @ [c]) cs)"

definition py_split_sep :: "char \<Rightarrow> string \<Rightarrow> string list" where
  \<comment> \<open>\<open>s.split(sep)\<close> for a one-character separator: empty fields are kept\<close>
  "py_split_sep sep s = split_on sep [] s"

definition py_startswith :: "string \<Rightarrow> string \<Rightarrow> bool" where
  \<comment> \<open>\<open>s.startswith(p)\<close>\<close>
  "py_startswith p s = (take (length p) s = p)"

primrec py_in :: "string \<Rightarrow> string \<Rightarrow> bool" where
  \<comment> \<open>\<open>sub in s\<close> on strings: \<open>sub\<close> occurs in \<open>s\<close> as a contiguous block\<close>
  "py_in sub [] = (sub = [])"
| "py_in sub (c # cs) = (py_startswith sub (c # cs) \<or> py_in sub cs)"

fun py_join :: "string \<Rightarrow> string list \<Rightarrow> string" where
  \<comment> \<open>\<open>sep.join(xs)\<close>\<close>
  "py_join sep [] = []"
| "py_join sep [x] = x"
| "py_join sep (x # y # ys) = x @ sep @ py_join sep (y # ys)"

fun replace_from :: "string \<Rightarrow> string \<Rightarrow> nat \<Rightarrow> string \<Rightarrow> string" where
  \<comment> \<open>the scan of \<open>s.replace(old, new)\<close>; the counter is the number of characters of a
      match just replaced that are still to be skipped\<close>
  "replace_from old new n [] = (if old = [] then new else [])"
| "replace_from old new (Suc n) (c # cs) = replace_from old new n cs"
| "replace_from old new 0 (c # cs) =
     (if old = [] then new @ c # replace_from old new 0 cs
      else if py_startswith old (c # cs) then new @ replace_from old new (length old - 1) cs
      else c # replace_from old new 0 cs)"

definition py_replace :: "string \<Rightarrow> string \<Rightarrow> string \<Rightarrow> string" where
  \<comment> \<open>\<open>s.replace(old, new)\<close>: every non-overlapping occurrence, from the left\<close>
  "py_replace old new s = replace_from old new 0 s"

definition is_linebreak :: "char \<Rightarrow> bool" where
  \<comment> \<open>the ASCII line boundaries of \<open>str.splitlines\<close>: LF, VT, FF, CR, FS, GS, RS\<close>
  "is_linebreak c = (c \<in> set [CHR 0x0A, CHR 0x0B, CHR 0x0C, CHR 0x0D, CHR 0x1C, CHR 0x1D, CHR 0x1E])"

fun split_lines :: "string \<Rightarrow> string \<Rightarrow> string list" where
  \<comment> \<open>\<open>s.splitlines()\<close> with the line read so far as first argument; CR LF is one boundary\<close>
  "split_lines cur [] = (if cur = [] then [] else [cur])"
| "split_lines cur (c # cs) =
     (if c = CHR 0x0D then
        (case cs of
           [] \<Rightarrow> [cur]
         | d # ds \<Rightarrow> if d = CHR 0x0A then cur # split_lines [] ds else cur # split_lines [] cs)
      else if is_linebreak c then cur # split_lines [] cs
      else split_lines (cur @ [c]) cs)"

definition py_splitlines :: "string \<Rightarrow> string list" where
  "py_splitlines s = split_lines [] s"


section \<open>Notes featurizer, serving copy (serve.py)\<close>

definition serve_POS :: "string list" where
  "serve_POS = [''calm'', ''better'', ''rested'', ''relaxed'', ''improved'', ''ok'', ''good'', ''great'']"

definition serve_NEG :: "string list" where
  "serve_NEG = [''anxious'', ''panic'', ''stressed'', ''overwhelmed'', ''tired'', ''exhausted'',
                ''worried'', ''nervous'', ''insomnia'']"

definition sentiment_words :: "string \<Rightarrow> string list" where
  \<comment> \<open>the set comprehension \<open>{w.strip(".,!?").lower() for w in text.split()}\<close>, as a
      duplicate-free list\<close>
  "sentiment_words text = remdups (map (\<lambda>w. py_lower (py_strip_of ''.,!?'' w)) (py_split text))"

definition serve_simple_sentiment :: "string \<Rightarrow> real" where
  "serve_simple_sentiment text =
     (if text = [] then 0
      else let words = sentiment_words text;
               score = (0::int);
               score = score + int (length (filter (\<lambda>w. w \<in> set serve_POS) words));
               score = score - int (length (filter (\<lambda>w. w \<in> set serve_NEG) words))
           in max (-1) (min 1 (real_of_int score / 5)))"

definition serve_notes_featurize :: "string option \<Rightarrow> (string \<times> real) list" where
  "serve_notes_featurize text =
     (let t = py_strip (case text of None \<Rightarrow> [] | Some s \<Rightarrow> s);
          toks = filter (\<lambda>w. w \<noteq> []) (py_split t);
          sent = serve_simple_sentiment t;
          low = py_lower t
      in [(''notes_len'', real (length t)),
          (''notes_words'', real (length toks)),
          (''notes_sentiment'', sent),
          (''kw_work'', if py_in ''work'' low then 1 else 0),
          (''kw_school'', if py_in ''school'' low \<or> py_in ''class'' low then 1 else 0),
          (''kw_exam'', if py_in ''exam'' low \<or> py_in ''test'' low \<or> py_in ''deadline'' low then 1 else 0),
          (''kw_sleep'', if py_in ''sleep'' low \<or> py_in ''insomnia'' low then 1 else 0),
          (''kw_social'', if py_in ''social'' low \<or> py_in ''party'' low \<or> py_in ''crowd'' low then 1 else 0),
          (''kw_finance'', if py_in ''money'' low \<or> py_in ''rent'' low \<or> py_in ''bills'' low then 1 else 0),
          (''kw_health'', if py_in ''health'' low \<or> py_in ''sick'' low \<or> py_in ''doctor'' low then 1 else 0)])"

section \<open>Notes featurizer, training copy (train\_model.py)\<close>

fun dict_set :: "('k \<times> 'v) list \<Rightarrow> 'k \<Rightarrow> 'v \<Rightarrow> ('k \<times> 'v) list" where
  \<comment> \<open>\<open>d[k] = v\<close> on an insertion-ordered dict: overwrite in place, or append\<close>
  "dict_set [] k v = [(k, v)]"
| "dict_set ((k', v') # d) k v = (if k' = k then (k, v) # d else (k', v') # dict_set d k v)"

definition train_POS :: "string list" where
  "train_POS = [''calm'', ''better'', ''rested'', ''relaxed'', ''improved'', ''ok'', ''good'', ''great'']"

definition train_NEG :: "string list" where
  "train_NEG = [''anxious'', ''panic'', ''stressed'', ''overwhelmed'', ''tired'', ''exhausted'',
                ''worried'', ''nervous'', ''insomnia'']"

definition train_simple_sentiment :: "string \<Rightarrow> real" where
  "train_simple_sentiment text =
     (if text = [] then 0
      else let words = sentiment_words text;
               score = (0::int);
               score = score + int (length (filter (\<lambda>w. w \<in> set train_POS) words));
               score = score - int (length (filter (\<lambda>w. w \<in> set train_NEG) words))
           in max (-1) (min 1 (real_of_int score / 5)))"

definition train_notes_featurize :: "string option \<Rightarrow> (string \<times> real) list" where
  "train_notes_featurize text =
     (let t = py_strip (case text of None \<Rightarrow> [] | Some s \<Rightarrow> s);
          toks = filter (\<lambda>w. w \<noteq> []) (py_split t);
          sent = train_simple_sentiment t;
          feats = [(''notes_len'', real (length t)),
                   (''notes_words'', real (length toks)),
                   (''notes_sentiment'', sent)];
          low = py_lower t;
          feats = dict_set feats ''kw_work'' (if py_in ''work'' low then 1 else 0);
          feats = dict_set feats ''kw_school'' (if py_in ''school'' low \<or> py_in ''class'' low then 1 else 0);
          feats = dict_set feats ''kw_exam''
                    (if py_in ''exam'' low \<or> py_in ''test'' low \<or> py_in ''deadline'' low then 1 else 0);
          feats = dict_set feats ''kw_sleep'' (if py_in ''sleep'' low \<or> py_in ''insomnia'' low then 1 else 0);
          feats = dict_set feats ''kw_social''
                    (if py_in ''social'' low \<or> py_in ''party'' low \<or> py_in ''crowd'' low then 1 else 0);
          feats = dict_set feats ''kw_finance''
                    (if py_in ''money'' low \<or> py_in ''rent'' low \<or> py_in ''bills'' low then 1 else 0);
          feats = dict_set feats ''kw_health''
                    (if py_in ''health'' low \<or> py_in ''sick'' low \<or> py_in ''doctor'' low then 1 else 0)
      in feats)"

section \<open>Prediction service (serve.py)\<close>

datatype error =
    RuntimeError string
  | ValueError string
  | HTTPException nat string

text \<open>
  The model bundle is a Python dict. Each key the programs read or write is a field;
  \<open>None\<close> is what \<open>bundle.get(key)\<close> returns for an absent key.
\<close>

record 'p model_bundle =
  b_pipeline :: "'p option"
  b_numeric_features :: "string list option"
  b_numeric :: "string list option"
  b_trigger_features :: "string list option"
  b_trigger_cols :: "string list option"
  b_trained_at :: "string option"
  b_n_train :: "nat option"
  b_n_test :: "nat option"
  b_metrics :: "(real \<times> real \<times> real) option"
  b_version :: "string option"

record manifest =
  numeric_features :: "string list"
  trigger_features :: "string list"

definition py_or :: "string list option \<Rightarrow> string list option \<Rightarrow> string list option" where
  \<comment> \<open>\<open>x or y\<close>: \<open>x\<close> when it is truthy (a non-empty list), else \<open>y\<close>\<close>
  "py_or x y = (case x of Some (a # as) \<Rightarrow> x | _ \<Rightarrow> y)"

definition load_manifest :: "'p model_bundle \<Rightarrow> manifest" where
  \<comment> \<open>the module-level assignments of \<open>numeric_features\<close> and \<open>trigger_features\<close>\<close>
  "load_manifest b =
     \<lparr> numeric_features =
         (case py_or (py_or (b_numeric_features b) (b_numeric b))
                 (Some [''sleep'', ''energy'', ''mood'', ''anxiety_7d_avg'']) of
            Some l \<Rightarrow> l | None \<Rightarrow> []),
       trigger_features =
         (case py_or (py_or (b_trigger_features b) (b_trigger_cols b)) (Some [''triggers'']) of
            Some l \<Rightarrow> l | None \<Rightarrow> []) \<rparr>"

definition load_bundle :: "'p model_bundle option \<Rightarrow> error + 'p \<times> manifest" where
  \<comment> \<open>start-up; the argument is \<open>None\<close> when the model file does not exist\<close>
  "load_bundle file =
     (case file of
        None \<Rightarrow> Inl (RuntimeError ''Model file not found at anxiety_model.pkl. Run train_model.py first.'')
      | Some b \<Rightarrow>
          (case b_pipeline b of
             None \<Rightarrow> Inl (RuntimeError ''Model bundle is missing 'pipeline'. Did training succeed?'')
           | Some p \<Rightarrow> Inr (p, load_manifest b)))"

datatype triggers_field = TrigStr string | TrigList "string list"

record check_in_entry =
  sleep :: real
  energy :: real
  mood :: real
  anxiety_7d_avg :: real
  triggers :: triggers_field
  timestamp :: string
  entry_notes :: "string option"

text \<open>What \<open>build_feature_row\<close> reads of the parsed \<open>datetime\<close>.\<close>

record datetime =
  dt_hour :: nat
  dt_weekday :: nat

text \<open>
  The library functions the row builder calls: \<open>datetime.fromisoformat\<close> (\<open>None\<close> is its
  exception), \<open>np.sin\<close>, \<open>np.cos\<close> and the constant \<open>np.pi\<close>.
\<close>

record py_env =
  fromisoformat :: "string \<Rightarrow> datetime option"
  np_sin :: "real \<Rightarrow> real"
  np_cos :: "real \<Rightarrow> real"
  np_pi :: real

text \<open>A value of the feature row: a \<open>float\<close>, an \<open>int\<close> or a \<open>str\<close>.\<close>

datatype pyval = PFloat real | PInt int | PStr string

type_synonym feature_row = "string \<rightharpoonup> pyval"

text \<open>
  Double-precision subtraction. A finite double is a real \<open>k * 2 ^ (e - 52)\<close> with an
  integer \<open>k\<close> of magnitude at most \<open>2 ^ 53\<close> and an exponent \<open>e\<close> from -1022 to 1023. The
  difference of two doubles is the exact difference rounded to the nearest double, a tie
  to the one with the even \<open>k\<close>. Overflow is not modelled: \<open>10.0 - mood\<close> cannot overflow
  for a finite \<open>mood\<close>.
\<close>

definition np_rint :: "real \<Rightarrow> int" where
  \<comment> \<open>round to the nearest integer, a tie to the even one\<close>
  "np_rint x =
     (let f = \<lfloor>x\<rfloor>; d = x - of_int f
      in if d < 1 / 2 then f else if 1 / 2 < d then f + 1 else if even f then f else f + 1)"

fun binade_from :: "nat \<Rightarrow> real \<Rightarrow> int" where
  \<comment> \<open>the greatest exponent from -1021 to \<open>n - 1022\<close> whose power of two is at most \<open>a\<close>, or
      -1022 when there is none\<close>
  "binade_from 0 a = - 1022"
| "binade_from (Suc n) a =
     (if 2 powi (int (Suc n) - 1022) \<le> a then int (Suc n) - 1022 else binade_from n a)"

definition binade :: "real \<Rightarrow> int" where
  \<comment> \<open>the exponent of the doubles next to \<open>x\<close>; -1022 in the subnormal range\<close>
  "binade x = binade_from 2045 \<bar>x\<bar>"

definition double_ulp :: "real \<Rightarrow> real" where
  \<comment> \<open>the distance between neighbouring doubles around \<open>x\<close>\<close>
  "double_ulp x = 2 powi (binade x - 52)"

definition round_double :: "real \<Rightarrow> real" where
  "round_double x = of_int (np_rint (x / double_ulp x)) * double_ulp x"

definition float_sub :: "real \<Rightarrow> real \<Rightarrow> real" where
  \<comment> \<open>\<open>a - b\<close> on floats\<close>
  "float_sub a b = round_double (a - b)"

definition base_map :: "check_in_entry \<Rightarrow> (string \<times> real) list" where
  "base_map entry =
     [(''sleep'', sleep entry),
      (''energy'', energy entry),
      (''mood'', float_sub 10 (mood entry)),
      (''anxiety_7d_avg'', anxiety_7d_avg entry)]"

definition add_base :: "manifest \<Rightarrow> check_in_entry \<Rightarrow> feature_row \<Rightarrow> feature_row" where
  \<comment> \<open>the loop over the four base names; each of them is a key of \<open>base_map\<close>\<close>
  "add_base mf entry row =
     fold (\<lambda>nf row. if nf \<in> set (numeric_features mf)
                      then (case map_of (base_map entry) nf of
                              Some v \<Rightarrow> row(nf \<mapsto> PFloat v)
                            | None \<Rightarrow> row)
                      else row)
       [''sleep'', ''energy'', ''mood'', ''anxiety_7d_avg''] row"

definition add_time :: "py_env \<Rightarrow> manifest \<Rightarrow> datetime \<Rightarrow> feature_row \<Rightarrow> feature_row" where
  \<comment> \<open>hour, weekend flag and the cyclical encodings, each only if the manifest names it\<close>
  "add_time env mf dt row =
     (let nfs = set (numeric_features mf);
          hour = dt_hour dt;
          is_weekend = (if dt_weekday dt \<ge> 5 then 1 else 0 :: nat);
          row = (if ''hour'' \<in> nfs then row(''hour'' \<mapsto> PFloat (real hour)) else row);
          row = (if ''is_weekend'' \<in> nfs then row(''is_weekend'' \<mapsto> PFloat (real is_weekend)) else row);
          dow = dt_weekday dt;
          row = (if ''dow_sin'' \<in> nfs then row(''dow_sin'' \<mapsto> PFloat (np_sin env (2 * np_pi env * real dow / 7))) else row);
          row = (if ''dow_cos'' \<in> nfs then row(''dow_cos'' \<mapsto> PFloat (np_cos env (2 * np_pi env * real dow / 7))) else row);
          row = (if ''hour_sin'' \<in> nfs then row(''hour_sin'' \<mapsto> PFloat (np_sin env (2 * np_pi env * real hour / 24))) else row);
          row = (if ''hour_cos'' \<in> nfs then row(''hour_cos'' \<mapsto> PFloat (np_cos env (2 * np_pi env * real hour / 24))) else row)
      in row)"

definition trig_str :: "triggers_field \<Rightarrow> string" where
  \<comment> \<open>\<open>",".join(entry.triggers)\<close> for a list, \<open>str(entry.triggers or "")\<close> for a string\<close>
  "trig_str ts = (case ts of TrigList l \<Rightarrow> py_join '','' l | TrigStr s \<Rightarrow> s)"

definition trig_list :: "triggers_field \<Rightarrow> string list" where
  "trig_list ts =
     (case ts of
        TrigList l \<Rightarrow> map (\<lambda>t. py_lower (py_strip t)) l
      | TrigStr s \<Rightarrow>
          map (\<lambda>x. py_lower (py_strip x))
            (filter (\<lambda>x. py_strip x \<noteq> []) (py_split_sep CHR '','' s)))"

definition add_triggers :: "manifest \<Rightarrow> check_in_entry \<Rightarrow> feature_row \<Rightarrow> feature_row" where
  "add_triggers mf entry row =
     (if ''triggers'' \<in> set (trigger_features mf)
      then row(''triggers'' \<mapsto> PStr (trig_str (triggers entry)))
      else fold (\<lambda>tf row.
                   if py_startswith ''trigger_'' tf
                   then (let base = py_lower (py_replace ''trigger_'' [] tf)
                         in row(tf \<mapsto> PInt (if base \<in> set (trig_list (triggers entry)) then 1 else 0)))
                   else row)
             (trigger_features mf) row)"

definition add_notes :: "manifest \<Rightarrow> check_in_entry \<Rightarrow> feature_row \<Rightarrow> feature_row" where
  "add_notes mf entry row =
     (let note_feats = serve_notes_featurize (Some (case entry_notes entry of None \<Rightarrow> [] | Some s \<Rightarrow> s));
          row = fold (\<lambda>(k, v) row. if k \<in> set (numeric_features mf) then row(k \<mapsto> PFloat v) else row)
                  note_feats row
      in if ''notes_sent'' \<in> set (numeric_features mf)
         then (case map_of note_feats ''notes_sentiment'' of
                 Some v \<Rightarrow> row(''notes_sent'' \<mapsto> PFloat v)
               | None \<Rightarrow> row)
         else row)"

definition fill_defaults :: "manifest \<Rightarrow> feature_row \<Rightarrow> feature_row" where
  \<comment> \<open>the loop over \<open>expected_cols\<close>, a Python set: its order is immaterial because each
      step writes a column that is absent and reads no other\<close>
  "fill_defaults mf row =
     fold (\<lambda>col row. case row col of
                        None \<Rightarrow> row(col \<mapsto> (if col = ''triggers'' then PStr [] else PFloat 0))
                      | Some v \<Rightarrow> row)
       (remdups (numeric_features mf @ trigger_features mf)) row"

definition build_feature_row :: "py_env \<Rightarrow> manifest \<Rightarrow> check_in_entry \<Rightarrow> error + feature_row" where
  "build_feature_row env mf entry =
     (case fromisoformat env (py_replace ''Z'' ''+00:00'' (timestamp entry)) of
        None \<Rightarrow> Inl (ValueError (''Invalid timestamp format: '' @ timestamp entry))
      | Some dt \<Rightarrow>
          Inr (fill_defaults mf
                (add_notes mf entry
                  (add_triggers mf entry
                    (add_time env mf dt
                      (add_base mf entry Map.empty))))))"

definition computed_row :: "py_env \<Rightarrow> manifest \<Rightarrow> datetime \<Rightarrow> check_in_entry \<Rightarrow> feature_row" where
  \<comment> \<open>the row of \<open>build_feature_row\<close> just before the loop that fills the defaults\<close>
  "computed_row env mf dt entry =
     add_notes mf entry (add_triggers mf entry (add_time env mf dt (add_base mf entry Map.empty)))"

definition row_value :: "error + feature_row \<Rightarrow> string \<Rightarrow> pyval option" where
  \<comment> \<open>\<open>row.get(k)\<close> on the result of \<open>build_feature_row\<close>; \<open>None\<close> also when it raised\<close>
  "row_value r k = (case r of Inl e \<Rightarrow> None | Inr row \<Rightarrow> row k)"





section \<open>Tip proxy (tip\_proxy.py)\<close>

definition VALID_CLIENT_KEY :: string where
  "VALID_CLIENT_KEY = ''local_secret_key_123''"

record tip_request =
  predicted_anxiety :: real
  req_sleep :: real
  req_energy :: real
  req_mood :: real
  req_triggers :: "string list"
  weeklyTrend :: "(string \<times> string) list"

definition verbs :: "string list" where
  "verbs = [''try'', ''take'', ''do'', ''journal'', ''walk'', ''breathe'', ''reflect'', ''plan'',
            ''schedule'', ''pause'', ''break'', ''focus'', ''stretch'', ''meditate'']"

definition strip_numbering :: "string \<Rightarrow> string" where
  \<comment> \<open>\<open>re.sub(r'^[0-9]+[\.)]\s*', '', line)\<close>: a leading run of digits, then a dot or a
      closing parenthesis, then any whitespace, is removed\<close>
  "strip_numbering line =
     (case dropWhile is_digit line of
        [] \<Rightarrow> line
      | c # rest \<Rightarrow>
          if takeWhile is_digit line \<noteq> [] \<and> (c = CHR ''.'' \<or> c = CHR '')'')
          then dropWhile is_space rest
          else line)"

definition day_names :: "string list" where
  "day_names = [''mon'', ''tue'', ''wed'', ''thu'', ''fri'', ''sat'', ''sun'']"

fun trend_groups :: "string \<Rightarrow> bool" and trend_tail :: "string \<Rightarrow> bool" where
  \<comment> \<open>\<open>trend_groups\<close>: the whole string matches \<open>((mon|...|sun):\d[\s,]*)+\<close>;
      \<open>trend_tail\<close>: the string matches \<open>[\s,]*\<close> followed by zero or more such groups\<close>
  "trend_groups (a # b # c # d # e # rest) =
     ([a, b, c] \<in> set day_names \<and> d = CHR '':'' \<and> is_digit e \<and> trend_tail rest)"
| "trend_groups _ = False"
| "trend_tail [] = True"
| "trend_tail (x # xs) = (if is_space x \<or> x = CHR '','' then trend_tail xs else trend_groups (x # xs))"

definition trend_echo :: "string \<Rightarrow> bool" where
  \<comment> \<open>\<open>re.fullmatch(r'(tips?:\s*)?((mon|tue|wed|thu|fri|sat|sun):\d[\s,]*)+', low)\<close>: the
      optional prefix is absent, \<open>tips:\<close> or \<open>tip:\<close>; a group begins with a letter, so the
      whitespace after the prefix is consumed whole\<close>
  "trend_echo low =
     (trend_groups low
      \<or> (py_startswith ''tips:'' low \<and> trend_groups (dropWhile is_space (drop 5 low)))
      \<or> (py_startswith ''tip:'' low \<and> trend_groups (dropWhile is_space (drop 4 low))))"

definition re_search_ignorecase :: "string \<Rightarrow> string \<Rightarrow> bool" where
  \<comment> \<open>\<open>re.search(pat, s, re.IGNORECASE)\<close> for a pattern of literal characters\<close>
  "re_search_ignorecase pat s = py_in (py_lower pat) (py_lower s)"

datatype 'a flow = Returned "string list" | Running 'a

fun scan_lines :: "string list \<Rightarrow> string list \<Rightarrow> string set \<Rightarrow> (string list \<times> string set) flow" where
  \<comment> \<open>the inner loop over the lines of one output, from the state \<open>(tips, seen)\<close>\<close>
  "scan_lines [] tips seen = Running (tips, seen)"
| "scan_lines (l # ls) tips seen =
     (let line = py_strip l in
      if line = [] then scan_lines ls tips seen
      else
        let line = strip_numbering line;
            low = py_lower line
        in if trend_echo low then scan_lines ls tips seen
           else if re_search_ignorecase ''anxiety:'' line
                   \<and> re_search_ignorecase ''sleep:'' line
                   \<and> re_search_ignorecase ''mood:'' line then scan_lines ls tips seen
           else if py_startswith ''tips:'' low \<and> \<not> list_ex (\<lambda>verb. py_in verb low) verbs
                then scan_lines ls tips seen
           else if length (py_split line) < 5 then scan_lines ls tips seen
           else if low \<in> seen then scan_lines ls tips seen
           else
             let seen = insert low seen;
                 tips = tips @ [line]
             in if length tips \<ge> 3 then Returned tips else scan_lines ls tips seen)"

fun scan_outputs :: "string list \<Rightarrow> string list \<Rightarrow> string set \<Rightarrow> string list" where
  \<comment> \<open>the outer loop over the raw outputs\<close>
  "scan_outputs [] tips seen = tips"
| "scan_outputs (t # ts) tips seen =
     (let clean = py_strip t in
      case scan_lines (py_splitlines clean) tips seen of
        Returned r \<Rightarrow> r
      | Running (tips', seen') \<Rightarrow> scan_outputs ts tips' seen')"

definition select_best_tips :: "string list \<Rightarrow> string list" where
  "select_best_tips raw_outputs = scan_outputs raw_outputs [] {}"

definition fallback_tips :: "real \<Rightarrow> string list" where
  "fallback_tips score =
     (if score \<ge> 7 then
        [''Take 5 deep breaths and go for a short walk to reduce immediate stress.'',
         ''Try a grounding exercise: name 5 things you can see, 4 you can touch.'',
         ''Limit screen time for 30 minutes to lower cognitive overload.'']
      else if score \<ge> 4 then
        [''Write down one worry and schedule a 10-minute worry window later.'',
         ''Journal for 5 minutes to externalize anxious thoughts.'',
         ''Set a small achievable goal for the next hour to regain control.'']
      else
        [''Reflect on one recent success to reinforce positive momentum.'',
         ''Maintain consistent sleep by going to bed 15 minutes earlier tonight.'',
         ''Take time to plan tomorrow so you start with clarity.''])"

definition get_tip :: "(tip_request \<Rightarrow> string + string list) \<Rightarrow> string \<Rightarrow> tip_request \<Rightarrow> error + string" where
  \<comment> \<open>\<open>generator\<close> stands for the text-generation pipeline run on \<open>build_prompt(req)\<close>: the
      list of the \<open>generated_text\<close> of its outputs, or the message of the exception raised
      inside the \<open>try\<close> block. The result is the \<open>tip\<close> of the response.\<close>
  "get_tip generator api_key req =
     (if api_key \<noteq> VALID_CLIENT_KEY then Inl (HTTPException 401 ''Invalid API key'')
      else
        (case generator req of
           Inl msg \<Rightarrow> Inr (py_join [CHR 0x0A] (take 3 (fallback_tips (predicted_anxiety req))))
         | Inr raw_texts \<Rightarrow>
             (let selected = select_best_tips raw_texts
              in if selected = []
                 then Inr (py_join [CHR 0x0A] (take 3 (fallback_tips (predicted_anxiety req))))
                 else Inr (py_join [CHR 0x0A] (take 3 selected)))))"

section \<open>Training entry point (train\_model.py)\<close>

definition BASE_NUMERIC :: "string list" where
  "BASE_NUMERIC = [''sleep'', ''energy'', ''mood'', ''anxiety_7d_avg'']"

definition NOTE_NUMERIC :: "string list" where
  "NOTE_NUMERIC = [''notes_len'', ''notes_words'', ''notes_sentiment'']"

definition NOTE_KEYWORDS :: "string list" where
  "NOTE_KEYWORDS = [''kw_work'', ''kw_school'', ''kw_exam'', ''kw_sleep'', ''kw_social'',
                    ''kw_finance'', ''kw_health'']"

definition NUMERIC_FEATURES :: "string list" where
  "NUMERIC_FEATURES = BASE_NUMERIC @ NOTE_NUMERIC @ NOTE_KEYWORDS"

definition TRIGGER_FEATURES :: "string list" where
  "TRIGGER_FEATURES = [''triggers'']"

text \<open>
  What \<open>main\<close> has in hand when it builds the bundle: the fitted pipeline, the sizes of the
  two splits and the three metrics.
\<close>

record 'p fitted =
  pipe :: 'p
  len_y_tr :: nat
  len_y_te :: nat
  mae :: real
  rmse :: real
  r2 :: real

definition main :: "error + 'p fitted \<Rightarrow> string \<Rightarrow> error + 'p model_bundle" where
  \<comment> \<open>\<open>training\<close> stands for \<open>load_dataset\<close>, \<open>clean\<close>, \<open>split_data\<close>, the fit and the
      evaluation: their results, or the exception one of them raised, whatever the data
      was; \<open>now\<close> is \<open>datetime.utcnow().isoformat()\<close>. The result is the bundle dumped.\<close>
  "main training now =
     (case training of
        Inl e \<Rightarrow> Inl e
      | Inr f \<Rightarrow>
          Inr \<lparr> b_pipeline = Some (pipe f),
                b_numeric_features = Some NUMERIC_FEATURES,
                b_numeric = None,
                b_trigger_features = Some TRIGGER_FEATURES,
                b_trigger_cols = None,
                b_trained_at = Some (now @ ''Z''),
                b_n_train = Some (len_y_tr f),
                b_n_test = Some (len_y_te f),
                b_metrics = Some (mae f, rmse f, r2 f),
                b_version = Some ''1.3.0-notes'' \<rparr>)"

section \<open>The sentiment rule as the specification words it\<close>

text \<open>
  The sentiment rule in the words of the specification, to compare with the code: split
  on whitespace, strip trailing punctuation, lowercase, count the tokens in each lexicon
  (each distinct token once, as its own example does), divide the difference by 5 and
  clamp to [-1, 1]; the empty text gives 0.
\<close>

definition strip_trailing :: "string \<Rightarrow> string \<Rightarrow> string" where
  "strip_trailing chars w = rev (dropWhile (\<lambda>c. c \<in> set chars) (rev w))"

definition spec_sentiment :: "string \<Rightarrow> real" where
  "spec_sentiment text =
     (if text = [] then 0
      else let tokens = remdups (map (\<lambda>w. py_lower (strip_trailing ''.,!?'' w)) (py_split text));
               positive_count = length (filter (\<lambda>w. w \<in> set serve_POS) tokens);
               negative_count = length (filter (\<lambda>w. w \<in> set serve_NEG) tokens)
           in max (-1) (min 1 ((real positive_count - real negative_count) / 5)))"

section \<open>The two regular expressions of the filter, as languages\<close>

text \<open>
  The matchers \<open>trend_echo\<close> and \<open>strip_numbering\<close> above are written by hand. Here the two
  patterns of the source are written as the languages they denote, so that the matchers
  can be proved to decide them.
\<close>

definition conc :: "string set \<Rightarrow> string set \<Rightarrow> string set" where
  \<comment> \<open>one pattern followed by another\<close>
  "conc A B = {xs @ ys | xs ys. xs \<in> A \<and> ys \<in> B}"

inductive_set star :: "string set \<Rightarrow> string set" for A :: "string set" where
  \<comment> \<open>\<open>A*\<close>\<close>
  star_empty: "[] \<in> star A"
| star_step: "x \<in> A \<Longrightarrow> y \<in> star A \<Longrightarrow> x @ y \<in> star A"

definition chars :: "(char \<Rightarrow> bool) \<Rightarrow> string set" where
  \<comment> \<open>a character class: the one-character strings whose character is in the class\<close>
  "chars p = {[c] | c. p c}"

definition trend_separator :: "char \<Rightarrow> bool" where
  \<comment> \<open>\<open>[\s,]\<close>\<close>
  "trend_separator c = (is_space c \<or> c = CHR '','')"

definition trend_group_lang :: "string set" where
  \<comment> \<open>\<open>(mon|tue|wed|thu|fri|sat|sun):\d[\s,]*\<close>\<close>
  "trend_group_lang =
     conc (set day_names) (conc {'':''} (conc (chars is_digit) (star (chars trend_separator))))"

definition trend_echo_lang :: "string set" where
  \<comment> \<open>\<open>(tips?:\s*)?((mon|tue|wed|thu|fri|sat|sun):\d[\s,]*)+\<close>\<close>
  "trend_echo_lang =
     conc ({[]} \<union> conc {''tip'', ''tips''} (conc {'':''} (star (chars is_space))))
          (conc trend_group_lang (star trend_group_lang))"

definition numbering_lang :: "string set" where
  \<comment> \<open>\<open>[0-9]+[\.)]\s*\<close>\<close>
  "numbering_lang =
     conc (conc (chars is_digit) (star (chars is_digit)))
          (conc {''.'', '')''} (star (chars is_space)))"

section \<open>The selection filter in closed form\<close>







section \<open>Sample inputs\<close>

text \<open>
  One check-in, sent on Friday 1 August 2025 at 10:12 UTC, and a library stub that parses
  exactly its timestamp; the trigonometric functions are not reached by the manifests
  used with it.
\<close>

definition sample_env :: py_env where
  "sample_env =
     \<lparr> fromisoformat =
         (\<lambda>s. if s = ''2025-08-01T10:12:00+00:00'' then Some \<lparr> dt_hour = 10, dt_weekday = 4 \<rparr> else None),
       np_sin = (\<lambda>x. 0),
       np_cos = (\<lambda>x. 1),
       np_pi = 355 / 113 \<rparr>"

definition sample_entry :: check_in_entry where
  "sample_entry =
     \<lparr> sleep = 6, energy = 5, mood = 3, anxiety_7d_avg = 4,
       triggers = TrigList [''Work'', ''Sleep deprivation''],
       timestamp = ''2025-08-01T10:12:00Z'',
       entry_notes = Some ''Felt anxious at work today'' \<rparr>"

definition calm_entry :: check_in_entry where
  "calm_entry = sample_entry \<lparr> mood := 8, entry_notes := None \<rparr>"

definition legacy_bundle :: "unit model_bundle" where
  \<comment> \<open>a bundle that holds a pipeline and nothing else\<close>
  "legacy_bundle =
     \<lparr> b_pipeline = Some (), b_numeric_features = None, b_numeric = None,
       b_trigger_features = None, b_trigger_cols = None, b_trained_at = None,
       b_n_train = None, b_n_test = None, b_metrics = None, b_version = None \<rparr>"

definition sample_fitted :: "unit fitted" where
  "sample_fitted = \<lparr> pipe = (), len_y_tr = 800, len_y_te = 200, mae = 1 / 2, rmse = 3 / 5, r2 = 9 / 10 \<rparr>"

definition sample_request :: tip_request where
  "sample_request =
     \<lparr> predicted_anxiety = 5, req_sleep = 6, req_energy = 5, req_mood = 3,
       req_triggers = [''Work''], weeklyTrend = [(''Mon'', ''5''), (''Tue'', ''4'')] \<rparr>"


definition expanded_manifest :: manifest where
  \<comment> \<open>a manifest in the pre-expanded trigger mode\<close>
  "expanded_manifest =
     \<lparr> numeric_features = [''sleep'', ''energy'', ''mood'', ''anxiety_7d_avg''],
       trigger_features = [''trigger_work'', ''trigger_sleep''] \<rparr>"

section \<open>Training and serving featurize notes alike\<close>

lemma train_sentiment_eq_serve: "train_simple_sentiment text = serve_simple_sentiment text"
  by (simp add: train_simple_sentiment_def serve_simple_sentiment_def
      train_POS_def serve_POS_def train_NEG_def serve_NEG_def)

text \<open>
  C1: for every note, absent (\<open>None\<close>), empty or not, the training-time featurizer and the
  serving-time featurizer return the same dict: the same ten keys in the same insertion
  order, each with the same value.
\<close>

theorem notes_featurize_train_eq_serve:
  "train_notes_featurize text = serve_notes_featurize text"
  by (simp add: train_notes_featurize_def serve_notes_featurize_def Let_def
      train_sentiment_eq_serve)

section \<open>Facts about the string primitives\<close>

lemma replace_from_skip: "replace_from old new n s = replace_from old new 0 (drop n s)"
  if "old \<noteq> []"
  using that by (induction old new n s rule: replace_from.induct) simp_all

lemma py_replace_prefix:
  "old \<noteq> [] \<Longrightarrow> py_replace old new (old @ s) = new @ py_replace old new s"
proof -
  assume ne: "old \<noteq> []"
  then obtain c cs where old: "old = c # cs"
    by (cases old) auto
  have "replace_from old new 0 (c # cs @ s) = new @ replace_from old new (length old - 1) (cs @ s)"
    using ne by (simp add: py_startswith_def old)
  also have "replace_from old new (length old - 1) (cs @ s) = replace_from old new 0 s"
    using replace_from_skip[OF ne, of new "length old - 1" "cs @ s"] by (simp add: old)
  finally show ?thesis
    by (simp add: py_replace_def old)
qed

lemma py_replace_absent:
  "old \<noteq> [] \<Longrightarrow> \<not> py_in old s \<Longrightarrow> py_replace old new s = s"
  unfolding py_replace_def by (induction s) simp_all

text \<open>
  For a trigger column whose name is \<open>trigger_\<close> followed by a suffix in which \<open>trigger_\<close>
  does not occur again, the name compared with the triggers is the lowercased suffix.
\<close>

lemma trigger_column_base:
  "\<not> py_in ''trigger_'' suffix \<Longrightarrow>
   py_lower (py_replace ''trigger_'' [] (''trigger_'' @ suffix)) = py_lower suffix"
  using py_replace_prefix[of "''trigger_''" "[]" suffix] py_replace_absent[of "''trigger_''" suffix "[]"]
  by simp

section \<open>Rounding to a double\<close>

lemma np_rint_of_int: "np_rint (of_int k) = k"
  by (simp add: np_rint_def)

lemma np_rint_cases: "np_rint x = \<lfloor>x\<rfloor> \<or> np_rint x = \<lfloor>x\<rfloor> + 1"
  by (simp add: np_rint_def Let_def)

lemma np_rint_mono:
  assumes "x \<le> y"
  shows "np_rint x \<le> np_rint y"
proof (cases "\<lfloor>x\<rfloor> = \<lfloor>y\<rfloor>")
  case True
  with assms have "x - of_int \<lfloor>x\<rfloor> \<le> y - of_int \<lfloor>y\<rfloor>" by simp
  then show ?thesis
    using True by (auto simp: np_rint_def Let_def)
next
  case False
  with assms have "\<lfloor>x\<rfloor> + 1 \<le> \<lfloor>y\<rfloor>"
    using floor_mono[of x y] by linarith
  moreover have "np_rint x \<le> \<lfloor>x\<rfloor> + 1" "\<lfloor>y\<rfloor> \<le> np_rint y"
    using np_rint_cases[of x] np_rint_cases[of y] by auto
  ultimately show ?thesis by linarith
qed

lemma np_rint_neg: "np_rint (- x) = - np_rint x"
proof (cases "x = of_int \<lfloor>x\<rfloor>")
  case True
  then obtain k where "x = of_int k" by blast
  then have "- x = of_int (- k)" by simp
  then show ?thesis
    using \<open>x = of_int k\<close> np_rint_of_int by metis
next
  case False
  have lo: "of_int \<lfloor>x\<rfloor> \<le> x" and hi: "x < of_int \<lfloor>x\<rfloor> + 1"
    by linarith+
  from lo have "of_int \<lfloor>x\<rfloor> < x \<or> x = of_int \<lfloor>x\<rfloor>" by linarith
  with False have lt: "of_int \<lfloor>x\<rfloor> < x" by blast
  have f: "\<lfloor>- x\<rfloor> = - \<lfloor>x\<rfloor> - 1"
  proof (rule floor_unique)
    have c: "of_int (- \<lfloor>x\<rfloor> - 1) = - of_int \<lfloor>x\<rfloor> - (1::real)"
      by simp
    show "of_int (- \<lfloor>x\<rfloor> - 1) \<le> - x"
      unfolding c using hi by linarith
    show "- x < of_int (- \<lfloor>x\<rfloor> - 1) + 1"
      unfolding c using lt by linarith
  qed
  have d: "- x - of_int \<lfloor>- x\<rfloor> = 1 - (x - of_int \<lfloor>x\<rfloor>)"
    by (simp add: f)
  show ?thesis
    unfolding np_rint_def Let_def d unfolding f by auto
qed

lemma binade_from_range: "- 1022 \<le> binade_from n a \<and> binade_from n a \<le> int n - 1022"
  by (induction n) auto

lemma binade_from_lower: "- 1022 < binade_from n a \<Longrightarrow> 2 powi (binade_from n a) \<le> a"
  by (induction n) (auto split: if_splits)

lemma binade_from_upper:
  "binade_from n a < int n - 1022 \<Longrightarrow> a < 2 powi (binade_from n a + 1)"
proof (induction n)
  case 0
  then show ?case by simp
next
  case (Suc n)
  show ?case
  proof (cases "2 powi (int (Suc n) - 1022) \<le> a")
    case True
    with Suc.prems show ?thesis by simp
  next
    case False
    then have b: "binade_from (Suc n) a = binade_from n a" and lt: "a < 2 powi (int (Suc n) - 1022)"
      by simp_all
    show ?thesis
    proof (cases "binade_from n a < int n - 1022")
      case True
      then show ?thesis using Suc.IH b by simp
    next
      case False
      with binade_from_range[of n a] have "binade_from n a = int n - 1022" by linarith
      then have "int (Suc n) - 1022 = binade_from (Suc n) a + 1"
        unfolding b by simp
      then show ?thesis
        using lt by (simp only:)
    qed
  qed
qed

lemma binade_from_mono: "a \<le> b \<Longrightarrow> binade_from n a \<le> binade_from n b"
proof (induction n)
  case 0
  show ?case by simp
next
  case (Suc n)
  show ?case
  proof (cases "2 powi (int (Suc n) - 1022) \<le> a")
    case True
    with Suc.prems have "2 powi (int (Suc n) - 1022) \<le> b" by linarith
    with True show ?thesis by simp
  next
    case False
    show ?thesis
    proof (cases "2 powi (int (Suc n) - 1022) \<le> b")
      case True
      with False binade_from_range[of n a] show ?thesis by simp
    next
      case nb: False
      with False Suc show ?thesis by simp
    qed
  qed
qed

lemma ulp_pos: "0 < double_ulp x"
  by (simp add: double_ulp_def)

lemma round_double_neg: "round_double (- x) = - round_double x"
  by (simp add: round_double_def double_ulp_def binade_def np_rint_neg)

lemma round_double_nonneg:
  assumes "0 \<le> x"
  shows "0 \<le> round_double x"
proof -
  have "0 \<le> x / double_ulp x"
    using assms ulp_pos[of x] by simp
  then have "np_rint 0 \<le> np_rint (x / double_ulp x)"
    by (rule np_rint_mono)
  then have "0 \<le> np_rint (x / double_ulp x)"
    using np_rint_of_int[of 0] by simp
  then show ?thesis
    using ulp_pos[of x] by (simp add: round_double_def)
qed

lemma round_double_mono_nonneg:
  assumes "0 \<le> x" "x \<le> y"
  shows "round_double x \<le> round_double y"
proof -
  have ax: "\<bar>x\<bar> = x" and ay: "\<bar>y\<bar> = y"
    using assms by simp_all
  have le: "binade x \<le> binade y"
    unfolding binade_def ax ay using assms(2) by (rule binade_from_mono)
  show ?thesis
  proof (cases "binade x = binade y")
    case True
    then have q: "double_ulp x = double_ulp y"
      by (simp add: double_ulp_def)
    have "x / double_ulp y \<le> y / double_ulp y"
      using assms(2) ulp_pos[of y] by (simp add: divide_right_mono)
    then have "np_rint (x / double_ulp y) \<le> np_rint (y / double_ulp y)"
      by (rule np_rint_mono)
    then have "real_of_int (np_rint (x / double_ulp y)) \<le> real_of_int (np_rint (y / double_ulp y))"
      by simp
    then show ?thesis
      unfolding round_double_def q using ulp_pos[of y] by (simp add: mult_right_mono)
  next
    case False
    with le have lt: "binade x < binade y" by simp
    have by_hi: "binade y \<le> 1023"
      using binade_from_range[of 2045 "\<bar>y\<bar>"] by (simp add: binade_def)
    have bx_lo: "- 1022 \<le> binade x"
      using binade_from_range[of 2045 "\<bar>x\<bar>"] by (simp add: binade_def)
    from lt by_hi have "binade_from 2045 x < int 2045 - 1022"
      by (simp add: binade_def ax)
    then have xu: "x < 2 powi (binade x + 1)"
      using binade_from_upper[of 2045 x] by (simp add: binade_def ax)
    from lt bx_lo have "- 1022 < binade_from 2045 y"
      by (simp add: binade_def ay)
    then have yl: "2 powi (binade y) \<le> y"
      using binade_from_lower[of 2045 y] by (simp add: binade_def ay)
    \<comment> \<open>the rounded \<open>x\<close> is at most the top of its binade\<close>
    have sx: "2 powi (binade x + 1) / double_ulp x = of_int (2 ^ 53)"
      by (simp add: double_ulp_def power_int_diff[symmetric])
    have "x / double_ulp x \<le> 2 powi (binade x + 1) / double_ulp x"
      using xu ulp_pos[of x] by (simp add: divide_right_mono)
    then have "np_rint (x / double_ulp x) \<le> np_rint (of_int (2 ^ 53))"
      unfolding sx by (rule np_rint_mono)
    then have "real_of_int (np_rint (x / double_ulp x)) \<le> 2 ^ 53"
      unfolding np_rint_of_int by (metis of_int_le_iff of_int_numeral of_int_power)
    then have "round_double x \<le> 2 ^ 53 * double_ulp x"
      unfolding round_double_def using ulp_pos[of x] by (simp add: mult_right_mono)
    also have "2 ^ 53 * double_ulp x = 2 powi (binade x + 1)"
      using sx ulp_pos[of x] by (simp add: field_simps)
    also have "\<dots> \<le> 2 powi (binade y)"
      using lt by (intro power_int_increasing) simp_all
    \<comment> \<open>and the rounded \<open>y\<close> is at least the bottom of its own\<close>
    also have "\<dots> \<le> round_double y"
    proof -
      have sy: "2 powi (binade y) / double_ulp y = of_int (2 ^ 52)"
        by (simp add: double_ulp_def power_int_diff[symmetric])
      have "2 powi (binade y) / double_ulp y \<le> y / double_ulp y"
        using yl ulp_pos[of y] by (simp add: divide_right_mono)
      then have "np_rint (of_int (2 ^ 52)) \<le> np_rint (y / double_ulp y)"
        unfolding sy by (rule np_rint_mono)
      then have "2 ^ 52 \<le> real_of_int (np_rint (y / double_ulp y))"
        unfolding np_rint_of_int by (metis of_int_le_iff of_int_numeral of_int_power)
      then have "2 ^ 52 * double_ulp y \<le> round_double y"
        unfolding round_double_def using ulp_pos[of y] by (simp add: mult_right_mono)
      moreover have "2 ^ 52 * double_ulp y = 2 powi (binade y)"
        using sy ulp_pos[of y] by (simp add: field_simps)
      ultimately show ?thesis by simp
    qed
    finally show ?thesis .
  qed
qed

lemma round_double_mono:
  assumes "x \<le> y"
  shows "round_double x \<le> round_double y"
proof (cases "0 \<le> x")
  case True
  then show ?thesis using assms by (rule round_double_mono_nonneg)
next
  case xneg: False
  show ?thesis
  proof (cases "0 \<le> y")
    case True
    have "round_double (- x) \<ge> 0"
      using xneg by (intro round_double_nonneg) simp
    then have "round_double x \<le> 0"
      by (simp add: round_double_neg)
    also have "0 \<le> round_double y"
      using True by (rule round_double_nonneg)
    finally show ?thesis .
  next
    case False
    with assms have "0 \<le> - y" "- y \<le> - x" by simp_all
    then have "round_double (- y) \<le> round_double (- x)"
      by (rule round_double_mono_nonneg)
    then show ?thesis
      by (simp add: round_double_neg)
  qed
qed

lemma binade_eqI:
  assumes "- 1022 < e" "e \<le> 1023" "2 powi e \<le> \<bar>x\<bar>" "\<bar>x\<bar> < 2 powi (e + 1)"
  shows "binade x = e"
proof (rule ccontr)
  assume ne: "binade x \<noteq> e"
  note r = binade_from_range[of 2045 "\<bar>x\<bar>"]
  show False
  proof (cases "binade x < e")
    case True
    with assms(2) have "binade_from 2045 \<bar>x\<bar> < int 2045 - 1022"
      by (simp add: binade_def)
    then have "\<bar>x\<bar> < 2 powi (binade x + 1)"
      using binade_from_upper[of 2045 "\<bar>x\<bar>"] by (simp add: binade_def)
    moreover have "(2::real) powi (binade x + 1) \<le> 2 powi e"
      using True by (intro power_int_increasing) simp_all
    ultimately show False using assms(3) by linarith
  next
    case False
    with ne have gt: "e < binade x" by simp
    with assms(1) have "- 1022 < binade_from 2045 \<bar>x\<bar>"
      by (simp add: binade_def)
    then have "2 powi (binade x) \<le> \<bar>x\<bar>"
      using binade_from_lower[of 2045 "\<bar>x\<bar>"] by (simp add: binade_def)
    moreover have "(2::real) powi (e + 1) \<le> 2 powi (binade x)"
      using gt by (intro power_int_increasing) simp_all
    ultimately show False using assms(4) by linarith
  qed
qed

lemma round_double_in_binade:
  "binade x = e \<Longrightarrow> round_double x = of_int (np_rint (x / 2 powi (e - 52))) * 2 powi (e - 52)"
  by (simp add: round_double_def double_ulp_def)

lemma np_rint_near: "\<bar>of_int (np_rint x) - x\<bar> \<le> 1 / 2"
proof -
  have "of_int \<lfloor>x\<rfloor> \<le> x" "x < of_int \<lfloor>x\<rfloor> + 1"
    by linarith+
  then show ?thesis
    by (auto simp: np_rint_def Let_def)
qed

lemma round_double_near: "\<bar>round_double x - x\<bar> \<le> double_ulp x / 2"
proof -
  let ?q = "double_ulp x"
  have q: "0 < ?q" by (rule ulp_pos)
  have "\<bar>of_int (np_rint (x / ?q)) - x / ?q\<bar> \<le> 1 / 2"
    by (rule np_rint_near)
  then have "\<bar>of_int (np_rint (x / ?q)) - x / ?q\<bar> * ?q \<le> 1 / 2 * ?q"
    using q by (intro mult_right_mono) simp_all
  moreover have "\<bar>of_int (np_rint (x / ?q)) - x / ?q\<bar> * ?q = \<bar>round_double x - x\<bar>"
  proof -
    have "\<bar>of_int (np_rint (x / ?q)) - x / ?q\<bar> * ?q = \<bar>(of_int (np_rint (x / ?q)) - x / ?q) * ?q\<bar>"
      using q by (simp add: abs_mult)
    also have "(of_int (np_rint (x / ?q)) - x / ?q) * ?q = round_double x - x"
      using q by (simp add: round_double_def left_diff_distrib)
    finally show ?thesis .
  qed
  ultimately show ?thesis by simp
qed

lemma round_double_values:
  "round_double 7 = 7"
  "round_double (7 - 1 / 2 ^ 51) = 7"
  "round_double (3 + 1 / 2 ^ 51) = 3 + 1 / 2 ^ 51"
  "round_double 3 = 3"
  "round_double 2 = 2"
proof -
  have b7: "binade 7 = 2" by (rule binade_eqI) simp_all
  have b7': "binade (7 - 1 / 2 ^ 51) = 2" by (rule binade_eqI) simp_all
  have b3: "binade 3 = 1" by (rule binade_eqI) simp_all
  have b3': "binade (3 + 1 / 2 ^ 51) = 1" by (rule binade_eqI) simp_all
  have b2: "binade 2 = 1" by (rule binade_eqI) simp_all
  show "round_double 7 = 7"
    unfolding round_double_in_binade[OF b7] by (simp add: np_rint_def)
  show "round_double (7 - 1 / 2 ^ 51) = 7"
    unfolding round_double_in_binade[OF b7'] by (simp add: np_rint_def)
  show "round_double (3 + 1 / 2 ^ 51) = 3 + 1 / 2 ^ 51"
    unfolding round_double_in_binade[OF b3'] by (simp add: np_rint_def)
  show "round_double 3 = 3"
    unfolding round_double_in_binade[OF b3] by (simp add: np_rint_def)
  show "round_double 2 = 2"
    unfolding round_double_in_binade[OF b2] by (simp add: np_rint_def)
qed

section \<open>The feature row, stage by stage\<close>

lemma add_base_apply:
  "add_base mf entry row k =
     (if k \<in> set (numeric_features mf) \<and> k \<in> set [''sleep'', ''energy'', ''mood'', ''anxiety_7d_avg'']
      then map_option PFloat (map_of (base_map entry) k) else row k)"
  by (simp add: add_base_def base_map_def)

lemma add_time_other:
  "k \<notin> set [''hour'', ''is_weekend'', ''dow_sin'', ''dow_cos'', ''hour_sin'', ''hour_cos'']
   \<Longrightarrow> add_time env mf dt row k = row k"
  by (simp add: add_time_def Let_def)

lemma add_time_keeps: "row k = Some v \<Longrightarrow> k \<notin> set [''hour'', ''is_weekend'', ''dow_sin'', ''dow_cos'', ''hour_sin'', ''hour_cos''] \<Longrightarrow> add_time env mf dt row k = Some v"
  by (simp add: add_time_other)

lemma fold_trigger_apply:
  "fold (\<lambda>tf row. if py_startswith ''trigger_'' tf then row(tf \<mapsto> g tf) else row) tfs row k =
     (if k \<in> set tfs \<and> py_startswith ''trigger_'' k then Some (g k) else row k)"
  by (induction tfs arbitrary: row) auto

lemma add_triggers_apply:
  "add_triggers mf entry row k =
     (if ''triggers'' \<in> set (trigger_features mf)
      then (if k = ''triggers'' then Some (PStr (trig_str (triggers entry))) else row k)
      else if k \<in> set (trigger_features mf) \<and> py_startswith ''trigger_'' k
           then Some (PInt (if py_lower (py_replace ''trigger_'' [] k) \<in> set (trig_list (triggers entry)) then 1 else 0))
           else row k)"
  unfolding add_triggers_def Let_def by (simp add: fold_trigger_apply)

lemma fold_notes_apply:
  "fold (\<lambda>(k, v) row. if k \<in> S then row(k \<mapsto> PFloat v) else row) kvs row k =
     (if k \<in> S then (case map_of (rev kvs) k of Some v \<Rightarrow> Some (PFloat v) | None \<Rightarrow> row k) else row k)"
  by (induction kvs arbitrary: row) (auto split: option.splits)

definition note_keys :: "string list" where
  "note_keys = [''notes_len'', ''notes_words'', ''notes_sentiment'', ''kw_work'', ''kw_school'',
     ''kw_exam'', ''kw_sleep'', ''kw_social'', ''kw_finance'', ''kw_health'']"

lemma serve_notes_keys: "map fst (serve_notes_featurize t) = note_keys"
  by (simp add: serve_notes_featurize_def Let_def note_keys_def)

lemma add_notes_other:
  assumes "k \<notin> set note_keys" "k \<noteq> ''notes_sent''"
  shows "add_notes mf entry row k = row k"
proof -
  have "map_of (rev kvs) k = None" if "map fst kvs = note_keys" for kvs :: "(string \<times> real) list"
  proof -
    have "k \<notin> fst ` set (rev kvs)" using that assms(1) by (metis set_map set_rev)
    then show ?thesis by (simp add: map_of_eq_None_iff)
  qed
  then have "map_of (rev (serve_notes_featurize t)) k = None" for t
    using serve_notes_keys by blast
  then show ?thesis using assms(2)
    by (simp add: add_notes_def Let_def fold_notes_apply split: option.splits)
qed

lemma fold_fill_apply:
  "fold (\<lambda>col row. case row col of None \<Rightarrow> row(col \<mapsto> d col) | Some v \<Rightarrow> row) cols row k =
     (case row k of Some v \<Rightarrow> Some v | None \<Rightarrow> if k \<in> set cols then Some (d k) else None)"
  by (induction cols arbitrary: row) (auto split: option.splits)

lemma fill_defaults_apply:
  "fill_defaults mf row k =
     (case row k of
        Some v \<Rightarrow> Some v
      | None \<Rightarrow> if k \<in> set (numeric_features mf) \<union> set (trigger_features mf)
                then Some (if k = ''triggers'' then PStr [] else PFloat 0) else None)"
  by (simp add: fill_defaults_def fold_fill_apply)


lemma trigger_prefix_not_note_key:
  "py_startswith ''trigger_'' k \<Longrightarrow> k \<notin> set note_keys \<and> k \<noteq> ''notes_sent'' \<and> k \<noteq> ''triggers''
     \<and> k \<notin> set [''hour'', ''is_weekend'', ''dow_sin'', ''dow_cos'', ''hour_sin'', ''hour_cos'']"
  by (auto simp: py_startswith_def note_keys_def)

lemma triggers_not_note_key:
  "''triggers'' \<notin> set note_keys \<and> ''mood'' \<notin> set note_keys"
  by (simp add: note_keys_def)

lemma build_feature_row_parsed:
  "fromisoformat env (py_replace ''Z'' ''+00:00'' (timestamp entry)) = Some dt \<Longrightarrow>
   build_feature_row env mf entry = Inr (fill_defaults mf (computed_row env mf dt entry))"
  by (simp add: build_feature_row_def computed_row_def)

lemma computed_row_trigger_col:
  assumes "py_startswith ''trigger_'' k"
  shows "computed_row env mf dt entry k =
     (if ''triggers'' \<notin> set (trigger_features mf) \<and> k \<in> set (trigger_features mf)
      then Some (PInt (if py_lower (py_replace ''trigger_'' [] k) \<in> set (trig_list (triggers entry)) then 1 else 0))
      else None)"
proof -
  from trigger_prefix_not_note_key[OF assms]
  have k: "k \<notin> set note_keys" "k \<noteq> ''notes_sent''" "k \<noteq> ''triggers''"
    "k \<notin> set [''hour'', ''is_weekend'', ''dow_sin'', ''dow_cos'', ''hour_sin'', ''hour_cos'']"
    by blast+
  have b: "add_base mf entry Map.empty k = None"
    using assms by (auto simp: add_base_apply py_startswith_def)
  show ?thesis
    unfolding computed_row_def
    by (simp add: add_notes_other[OF k(1,2)] add_triggers_apply add_time_other[OF k(4)] b assms k(3))
qed

lemma computed_row_triggers:
  "computed_row env mf dt entry ''triggers'' =
     (if ''triggers'' \<in> set (trigger_features mf) then Some (PStr (trig_str (triggers entry))) else None)"
proof -
  have n: "''triggers'' \<notin> set note_keys" by (simp add: note_keys_def)
  show ?thesis
    unfolding computed_row_def
    by (simp add: add_notes_other[OF n] add_triggers_apply add_time_other add_base_apply py_startswith_def)
qed

lemma computed_row_mood:
  "computed_row env mf dt entry ''mood'' =
     (if ''mood'' \<in> set (numeric_features mf)
      then Some (PFloat (round_double (10 - mood entry))) else None)"
proof -
  have n: "''mood'' \<notin> set note_keys" by (simp add: note_keys_def)
  show ?thesis
    unfolding computed_row_def
    by (simp add: add_notes_other[OF n] add_triggers_apply add_time_other add_base_apply base_map_def
        float_sub_def py_startswith_def)
qed

lemma sample_timestamp_parses:
  "fromisoformat sample_env (py_replace ''Z'' ''+00:00'' (timestamp sample_entry))
     = Some \<lparr> dt_hour = 10, dt_weekday = 4 \<rparr>"
  by (simp add: sample_env_def sample_entry_def py_replace_def py_startswith_def)

lemma calm_timestamp_parses:
  "fromisoformat sample_env (py_replace ''Z'' ''+00:00'' (timestamp calm_entry))
     = Some \<lparr> dt_hour = 10, dt_weekday = 4 \<rparr>"
  by (simp add: sample_env_def sample_entry_def calm_entry_def py_replace_def py_startswith_def)

section \<open>Trigger encoding\<close>

text \<open>
  C2, as the code has it. For a check-in whose timestamp parses and whose triggers are
  the list \<open>["Work", "Sleep deprivation"]\<close>: when the manifest's trigger features contain
  the literal column \<open>triggers\<close>, the row's \<open>triggers\<close> is the string
  \<open>"Work,Sleep deprivation"\<close>. Otherwise every column \<open>tf\<close> of the trigger features that
  starts with \<open>trigger_\<close> holds the integer 1 when the lowercased
  \<open>tf.replace("trigger_", "")\<close> is an element of the list \<open>["work", "sleep deprivation"]\<close> and
  the integer 0 when it is not; membership is equality with a whole trigger, so
  \<open>trigger_work\<close> is 1 and \<open>trigger_sleep\<close> is 0.
\<close>

theorem trigger_encoding:
  assumes "fromisoformat env (py_replace ''Z'' ''+00:00'' (timestamp entry)) = Some dt"
    and "triggers entry = TrigList [''Work'', ''Sleep deprivation'']"
  shows "\<exists>row. build_feature_row env mf entry = Inr row \<and>
     (''triggers'' \<in> set (trigger_features mf) \<longrightarrow>
        row ''triggers'' = Some (PStr ''Work,Sleep deprivation'')) \<and>
     (''triggers'' \<notin> set (trigger_features mf) \<longrightarrow>
        (\<forall>tf \<in> set (trigger_features mf). py_startswith ''trigger_'' tf \<longrightarrow>
           row tf = Some (PInt (if py_lower (py_replace ''trigger_'' [] tf) \<in> {''work'', ''sleep deprivation''}
                                then 1 else 0))) \<and>
        (''trigger_work'' \<in> set (trigger_features mf) \<longrightarrow> row ''trigger_work'' = Some (PInt 1)) \<and>
        (''trigger_sleep'' \<in> set (trigger_features mf) \<longrightarrow> row ''trigger_sleep'' = Some (PInt 0)))"
proof -
  let ?row = "fill_defaults mf (computed_row env mf dt entry)"
  have tl: "set (trig_list (triggers entry)) = {''work'', ''sleep deprivation''}"
    by (simp add: assms(2) trig_list_def py_lower_def lower_char_def py_strip_def strip_chars_def is_space_def)
  have ts: "trig_str (triggers entry) = ''Work,Sleep deprivation''"
    by (simp add: assms(2) trig_str_def)
  have col: "?row tf = Some (PInt (if py_lower (py_replace ''trigger_'' [] tf) \<in> {''work'', ''sleep deprivation''} then 1 else 0))"
    if "''triggers'' \<notin> set (trigger_features mf)" "tf \<in> set (trigger_features mf)" "py_startswith ''trigger_'' tf" for tf
    using that by (simp add: fill_defaults_apply computed_row_trigger_col tl)
  have w: "py_startswith ''trigger_'' ''trigger_work''" "py_lower (py_replace ''trigger_'' [] ''trigger_work'') = ''work''"
    by (simp_all add: py_startswith_def py_replace_def py_lower_def lower_char_def)
  have s: "py_startswith ''trigger_'' ''trigger_sleep''" "py_lower (py_replace ''trigger_'' [] ''trigger_sleep'') = ''sleep''"
    by (simp_all add: py_startswith_def py_replace_def py_lower_def lower_char_def)
  have "build_feature_row env mf entry = Inr ?row"
    by (rule build_feature_row_parsed[OF assms(1)])
  moreover have "''triggers'' \<in> set (trigger_features mf) \<longrightarrow> ?row ''triggers'' = Some (PStr ''Work,Sleep deprivation'')"
    by (simp add: fill_defaults_apply computed_row_triggers ts)
  moreover have "''triggers'' \<notin> set (trigger_features mf) \<longrightarrow> ''trigger_work'' \<in> set (trigger_features mf) \<longrightarrow> ?row ''trigger_work'' = Some (PInt 1)"
    using col[of "''trigger_work''"] w by simp
  moreover have "''triggers'' \<notin> set (trigger_features mf) \<longrightarrow> ''trigger_sleep'' \<in> set (trigger_features mf) \<longrightarrow> ?row ''trigger_sleep'' = Some (PInt 0)"
    using col[of "''trigger_sleep''"] s by simp
  ultimately show ?thesis using col by blast
qed

theorem trigger_encoding_witness:
  "\<exists>row. build_feature_row sample_env expanded_manifest sample_entry = Inr row \<and>
     row ''trigger_work'' = Some (PInt 1) \<and> row ''trigger_sleep'' = Some (PInt 0)"
proof -
  have t: "triggers sample_entry = TrigList [''Work'', ''Sleep deprivation'']"
    by (simp add: sample_entry_def)
  show ?thesis
    using trigger_encoding[OF sample_timestamp_parses t, of expanded_manifest]
    by (auto simp: expanded_manifest_def)
qed

text \<open>
  C2 as stated fails: with the manifest columns \<open>trigger_work\<close> and \<open>trigger_sleep\<close> and the
  triggers \<open>["Work", "Sleep deprivation"]\<close>, the row's \<open>trigger_sleep\<close> is 0, not 1.
\<close>

theorem trigger_sleep_counterexample:
  "row_value (build_feature_row sample_env expanded_manifest sample_entry) ''trigger_sleep'' = Some (PInt 0)
   \<and> row_value (build_feature_row sample_env expanded_manifest sample_entry) ''trigger_sleep'' \<noteq> Some (PInt 1)
   \<and> row_value (build_feature_row sample_env expanded_manifest sample_entry) ''trigger_sleep'' \<noteq> Some (PFloat 1)"
proof -
  have s: "py_startswith ''trigger_'' ''trigger_sleep''"
    by (simp add: py_startswith_def)
  have l: "py_lower (py_replace ''trigger_'' [] ''trigger_sleep'') = ''sleep''"
    by (simp add: py_startswith_def py_replace_def py_lower_def lower_char_def)
  have tl: "trig_list (triggers sample_entry) = [''work'', ''sleep deprivation'']"
    by (simp add: sample_entry_def trig_list_def py_lower_def lower_char_def py_strip_def
        strip_chars_def is_space_def)
  have "row_value (build_feature_row sample_env expanded_manifest sample_entry) ''trigger_sleep''
          = Some (PInt 0)"
    by (simp add: row_value_def build_feature_row_parsed[OF sample_timestamp_parses]
        fill_defaults_apply computed_row_trigger_col[OF s] l tl expanded_manifest_def)
  then show ?thesis by simp
qed

section \<open>Every manifest column is in the row\<close>

text \<open>
  C4: for every check-in whose timestamp parses and every manifest, \<open>build_feature_row\<close>
  returns a row whose keys include every column of \<open>numeric_features\<close> and
  \<open>trigger_features\<close>; a manifest column that the earlier steps did not write holds the
  empty string if it is \<open>triggers\<close> and 0.0 otherwise, and a column they did write keeps
  its value.
\<close>

theorem row_covers_manifest:
  assumes "fromisoformat env (py_replace ''Z'' ''+00:00'' (timestamp entry)) = Some dt"
  shows "\<exists>row. build_feature_row env mf entry = Inr row \<and>
     set (numeric_features mf) \<union> set (trigger_features mf) \<subseteq> dom row \<and>
     (\<forall>col \<in> set (numeric_features mf) \<union> set (trigger_features mf).
        computed_row env mf dt entry col = None \<longrightarrow>
        row col = Some (if col = ''triggers'' then PStr [] else PFloat 0)) \<and>
     (\<forall>col v. computed_row env mf dt entry col = Some v \<longrightarrow> row col = Some v)"
proof -
  let ?row = "fill_defaults mf (computed_row env mf dt entry)"
  have "build_feature_row env mf entry = Inr ?row"
    by (rule build_feature_row_parsed[OF assms])
  moreover have "set (numeric_features mf) \<union> set (trigger_features mf) \<subseteq> dom ?row"
    by (auto simp: fill_defaults_apply split: option.splits)
  moreover have "\<forall>col \<in> set (numeric_features mf) \<union> set (trigger_features mf).
        computed_row env mf dt entry col = None \<longrightarrow>
        ?row col = Some (if col = ''triggers'' then PStr [] else PFloat 0)"
    by (simp add: fill_defaults_apply)
  moreover have "\<forall>col v. computed_row env mf dt entry col = Some v \<longrightarrow> ?row col = Some v"
    by (simp add: fill_defaults_apply)
  ultimately show ?thesis by blast
qed

theorem row_covers_manifest_witness:
  "\<exists>row. build_feature_row sample_env
            \<lparr> numeric_features = [''sleep'', ''heart_rate'', ''triggers''], trigger_features = [''trigger_work''] \<rparr>
            sample_entry = Inr row \<and>
     {''sleep'', ''heart_rate'', ''triggers'', ''trigger_work''} \<subseteq> dom row \<and>
     row ''sleep'' = Some (PFloat 6) \<and>
     row ''heart_rate'' = Some (PFloat 0) \<and>
     row ''triggers'' = Some (PStr [])"
proof -
  let ?mf = "\<lparr> numeric_features = [''sleep'', ''heart_rate'', ''triggers''], trigger_features = [''trigger_work''] \<rparr>"
  let ?dt = "\<lparr> dt_hour = 10, dt_weekday = 4 \<rparr>"
  have n: "''heart_rate'' \<notin> set note_keys" "''sleep'' \<notin> set note_keys"
    by (simp_all add: note_keys_def)
  have h: "computed_row sample_env ?mf ?dt sample_entry ''heart_rate'' = None"
    by (simp add: computed_row_def add_notes_other[OF n(1)] add_triggers_apply add_time_other
        add_base_apply py_startswith_def)
  have t: "computed_row sample_env ?mf ?dt sample_entry ''triggers'' = None"
    by (simp add: computed_row_triggers)
  have s: "computed_row sample_env ?mf ?dt sample_entry ''sleep'' = Some (PFloat 6)"
    by (simp add: computed_row_def add_notes_other[OF n(2)] add_triggers_apply add_time_other
        add_base_apply base_map_def py_startswith_def sample_entry_def)
  from row_covers_manifest[OF sample_timestamp_parses, of ?mf] h t s
  show ?thesis by auto
qed

section \<open>The mood feature\<close>

text \<open>
  C9, as the code has it. When \<open>mood\<close> is one of the manifest's numeric features, the row's
  \<open>mood\<close> is 10 minus the mood of the check-in as the machine computes it: the exact
  difference rounded to the nearest double, at most half a unit in the last place away
  from it. So it never increases with the input mood: of two check-ins, the one with the
  greater or equal input mood has the smaller or equal mood feature.
\<close>

theorem mood_feature_inverted:
  assumes "''mood'' \<in> set (numeric_features mf)"
    and "fromisoformat env (py_replace ''Z'' ''+00:00'' (timestamp e1)) = Some dt1"
    and "fromisoformat env (py_replace ''Z'' ''+00:00'' (timestamp e2)) = Some dt2"
  shows "\<exists>row1 row2. build_feature_row env mf e1 = Inr row1 \<and> build_feature_row env mf e2 = Inr row2 \<and>
     row1 ''mood'' = Some (PFloat (round_double (10 - mood e1))) \<and>
     row2 ''mood'' = Some (PFloat (round_double (10 - mood e2))) \<and>
     \<bar>round_double (10 - mood e1) - (10 - mood e1)\<bar> \<le> double_ulp (10 - mood e1) / 2 \<and>
     (mood e1 \<le> mood e2 \<longrightarrow>
        (\<exists>v1 v2. row1 ''mood'' = Some (PFloat v1) \<and> row2 ''mood'' = Some (PFloat v2) \<and> v2 \<le> v1))"
proof -
  let ?r1 = "fill_defaults mf (computed_row env mf dt1 e1)"
  let ?r2 = "fill_defaults mf (computed_row env mf dt2 e2)"
  have b: "build_feature_row env mf e1 = Inr ?r1" "build_feature_row env mf e2 = Inr ?r2"
    by (rule build_feature_row_parsed[OF assms(2)], rule build_feature_row_parsed[OF assms(3)])
  have m: "?r1 ''mood'' = Some (PFloat (round_double (10 - mood e1)))"
    "?r2 ''mood'' = Some (PFloat (round_double (10 - mood e2)))"
    using assms(1) by (simp_all add: fill_defaults_apply computed_row_mood)
  have n: "\<bar>round_double (10 - mood e1) - (10 - mood e1)\<bar> \<le> double_ulp (10 - mood e1) / 2"
    by (rule round_double_near)
  have d: "mood e1 \<le> mood e2 \<longrightarrow>
        (\<exists>v1 v2. ?r1 ''mood'' = Some (PFloat v1) \<and> ?r2 ''mood'' = Some (PFloat v2) \<and> v2 \<le> v1)"
  proof
    assume "mood e1 \<le> mood e2"
    then have "10 - mood e2 \<le> 10 - mood e1" by simp
    then have "round_double (10 - mood e2) \<le> round_double (10 - mood e1)"
      by (rule round_double_mono)
    with m show "\<exists>v1 v2. ?r1 ''mood'' = Some (PFloat v1) \<and> ?r2 ''mood'' = Some (PFloat v2) \<and> v2 \<le> v1"
      by blast
  qed
  from b m n d show ?thesis by blast
qed

theorem mood_feature_inverted_witness:
  "\<exists>row1 row2. build_feature_row sample_env expanded_manifest sample_entry = Inr row1 \<and>
     build_feature_row sample_env expanded_manifest calm_entry = Inr row2 \<and>
     row1 ''mood'' = Some (PFloat 7) \<and> row2 ''mood'' = Some (PFloat 2)"
proof -
  have m: "''mood'' \<in> set (numeric_features expanded_manifest)"
    by (simp add: expanded_manifest_def)
  have v: "round_double (10 - mood sample_entry) = 7" "round_double (10 - mood calm_entry) = 2"
    by (simp_all add: sample_entry_def calm_entry_def round_double_values)
  show ?thesis
    using mood_feature_inverted[OF m sample_timestamp_parses calm_timestamp_parses]
    unfolding v by blast
qed

text \<open>
  C9 as stated fails. The moods 3 and 3 + 2^-51 are both doubles and differ, and both give
  the mood feature 7: the feature is not strictly decreasing. And a manifest that names
  \<open>mood\<close> among its trigger features only gets the default 0.0, not 10 minus the mood.
\<close>

theorem equal_features_counterexample:
  "round_double 3 = 3
   \<and> round_double (3 + 1 / 2 ^ 51) = 3 + 1 / 2 ^ 51
   \<and> (3::real) < 3 + 1 / 2 ^ 51
   \<and> row_value (build_feature_row sample_env expanded_manifest (sample_entry \<lparr> mood := 3 \<rparr>)) ''mood''
       = Some (PFloat 7)
   \<and> row_value (build_feature_row sample_env expanded_manifest (sample_entry \<lparr> mood := 3 + 1 / 2 ^ 51 \<rparr>)) ''mood''
       = Some (PFloat 7)
   \<and> row_value (build_feature_row sample_env
                  \<lparr> numeric_features = [''sleep''], trigger_features = [''mood''] \<rparr> sample_entry) ''mood''
       = Some (PFloat 0)"
proof -
  let ?dt = "\<lparr> dt_hour = 10, dt_weekday = 4 \<rparr>"
  have p: "fromisoformat sample_env (py_replace ''Z'' ''+00:00'' (timestamp (sample_entry \<lparr> mood := m \<rparr>)))
             = Some ?dt" for m
    using sample_timestamp_parses by simp
  have d: "(10::real) - (3 + 1 / 2 ^ 51) = 7 - 1 / 2 ^ 51"
    by simp
  have a: "row_value (build_feature_row sample_env expanded_manifest (sample_entry \<lparr> mood := 3 \<rparr>)) ''mood''
             = Some (PFloat 7)"
    by (simp add: row_value_def build_feature_row_parsed[OF p] fill_defaults_apply computed_row_mood
        expanded_manifest_def round_double_values)
  have "row_value (build_feature_row sample_env expanded_manifest (sample_entry \<lparr> mood := 3 + 1 / 2 ^ 51 \<rparr>)) ''mood''
             = Some (PFloat (round_double (10 - (3 + 1 / 2 ^ 51))))"
    by (simp add: row_value_def build_feature_row_parsed[OF p] fill_defaults_apply computed_row_mood
        expanded_manifest_def del: of_int_numeral)
  then have b: "row_value (build_feature_row sample_env expanded_manifest
                   (sample_entry \<lparr> mood := 3 + 1 / 2 ^ 51 \<rparr>)) ''mood'' = Some (PFloat 7)"
    unfolding d by (simp only: round_double_values)
  have c: "row_value (build_feature_row sample_env
                  \<lparr> numeric_features = [''sleep''], trigger_features = [''mood''] \<rparr> sample_entry) ''mood''
             = Some (PFloat 0)"
    by (simp add: row_value_def build_feature_row_parsed[OF sample_timestamp_parses] fill_defaults_apply
        computed_row_mood)
  have lt: "(3::real) < 3 + 1 / 2 ^ 51"
    by simp
  from round_double_values(4) round_double_values(3) lt a b c show ?thesis
    by blast
qed

section \<open>Clamping and rounding the prediction\<close>






section \<open>The manifest read from the bundle\<close>

lemma py_or_cases:
  "py_or x y = (if x = None \<or> x = Some [] then y else x)"
  by (simp add: py_or_def split: option.splits list.splits)

text \<open>
  C6, as the code has it. A list that the bundle holds under \<open>numeric_features\<close>
  (\<open>trigger_features\<close>) is the serving list whenever it is not empty. When that key is absent
  or holds the empty list, a non-empty list under the older key \<open>numeric\<close> (\<open>trigger_cols\<close>)
  is taken instead, and when that one too is absent or empty the legacy default is used.
\<close>

theorem manifest_from_bundle:
  "(\<forall>l. b_numeric_features b = Some l \<and> l \<noteq> [] \<longrightarrow> numeric_features (load_manifest b) = l)
   \<and> (\<forall>l. b_trigger_features b = Some l \<and> l \<noteq> [] \<longrightarrow> trigger_features (load_manifest b) = l)
   \<and> (\<forall>l. (b_numeric_features b = None \<or> b_numeric_features b = Some []) \<and> b_numeric b = Some l \<and> l \<noteq> []
          \<longrightarrow> numeric_features (load_manifest b) = l)
   \<and> (\<forall>l. (b_trigger_features b = None \<or> b_trigger_features b = Some []) \<and> b_trigger_cols b = Some l \<and> l \<noteq> []
          \<longrightarrow> trigger_features (load_manifest b) = l)
   \<and> ((b_numeric_features b = None \<or> b_numeric_features b = Some [])
        \<and> (b_numeric b = None \<or> b_numeric b = Some [])
          \<longrightarrow> numeric_features (load_manifest b) = [''sleep'', ''energy'', ''mood'', ''anxiety_7d_avg''])
   \<and> ((b_trigger_features b = None \<or> b_trigger_features b = Some [])
        \<and> (b_trigger_cols b = None \<or> b_trigger_cols b = Some [])
          \<longrightarrow> trigger_features (load_manifest b) = [''triggers''])"
  by (auto simp: load_manifest_def py_or_cases)

theorem manifest_from_bundle_witness:
  "numeric_features (load_manifest (legacy_bundle \<lparr> b_numeric_features := Some [''sleep'', ''hour''] \<rparr>))
     = [''sleep'', ''hour'']
   \<and> trigger_features (load_manifest (legacy_bundle \<lparr> b_trigger_cols := Some [''trigger_work''] \<rparr>))
     = [''trigger_work'']
   \<and> numeric_features (load_manifest legacy_bundle) = [''sleep'', ''energy'', ''mood'', ''anxiety_7d_avg'']
   \<and> trigger_features (load_manifest legacy_bundle) = [''triggers'']"
proof -
  have "numeric_features (load_manifest (legacy_bundle \<lparr> b_numeric_features := Some [''sleep'', ''hour''] \<rparr>))
          = [''sleep'', ''hour'']"
    using manifest_from_bundle[of "legacy_bundle \<lparr> b_numeric_features := Some [''sleep'', ''hour''] \<rparr>"]
    by simp
  moreover have "trigger_features (load_manifest (legacy_bundle \<lparr> b_trigger_cols := Some [''trigger_work''] \<rparr>))
          = [''trigger_work'']"
    using manifest_from_bundle[of "legacy_bundle \<lparr> b_trigger_cols := Some [''trigger_work''] \<rparr>"]
    by (simp add: legacy_bundle_def)
  moreover have "numeric_features (load_manifest legacy_bundle) = [''sleep'', ''energy'', ''mood'', ''anxiety_7d_avg'']"
    using manifest_from_bundle[of legacy_bundle] by (simp add: legacy_bundle_def)
  moreover have "trigger_features (load_manifest legacy_bundle) = [''triggers'']"
    using manifest_from_bundle[of legacy_bundle] by (simp add: legacy_bundle_def)
  ultimately show ?thesis by blast
qed

text \<open>
  C6 as stated fails: a bundle that declares the empty list of trigger features is served
  with the default list \<open>["triggers"]\<close>, not with the list it declares.
\<close>

theorem empty_trigger_features_counterexample:
  "b_trigger_features (legacy_bundle \<lparr> b_trigger_features := Some [] \<rparr>) = Some []
   \<and> trigger_features (load_manifest (legacy_bundle \<lparr> b_trigger_features := Some [] \<rparr>)) = [''triggers'']
   \<and> trigger_features (load_manifest (legacy_bundle \<lparr> b_trigger_features := Some [] \<rparr>)) \<noteq> []"
  by (simp add: load_manifest_def py_or_def legacy_bundle_def)

section \<open>The manifest written by the trainer\<close>

text \<open>
  C10: whatever the data, a bundle that \<open>main\<close> writes declares the fourteen numeric
  features \<open>sleep\<close>, \<open>energy\<close>, \<open>mood\<close>, \<open>anxiety_7d_avg\<close>, \<open>notes_len\<close>, \<open>notes_words\<close>,
  \<open>notes_sentiment\<close>, \<open>kw_work\<close>, \<open>kw_school\<close>, \<open>kw_exam\<close>, \<open>kw_sleep\<close>, \<open>kw_social\<close>,
  \<open>kw_finance\<close>, \<open>kw_health\<close> in this order and the trigger features \<open>["triggers"]\<close>. The
  serving side reads exactly these lists from it, so it takes the branch for the literal
  \<open>triggers\<close> column: the row's \<open>triggers\<close> is the joined trigger string, and no column is
  written by the loop over \<open>trigger_*\<close> columns.
\<close>

theorem trainer_manifest_fixed:
  assumes "main training now = Inr b"
  shows "b_numeric_features b =
           Some [''sleep'', ''energy'', ''mood'', ''anxiety_7d_avg'', ''notes_len'', ''notes_words'',
                 ''notes_sentiment'', ''kw_work'', ''kw_school'', ''kw_exam'', ''kw_sleep'', ''kw_social'',
                 ''kw_finance'', ''kw_health'']
     \<and> b_trigger_features b = Some [''triggers'']
     \<and> numeric_features (load_manifest b) =
           [''sleep'', ''energy'', ''mood'', ''anxiety_7d_avg'', ''notes_len'', ''notes_words'',
            ''notes_sentiment'', ''kw_work'', ''kw_school'', ''kw_exam'', ''kw_sleep'', ''kw_social'',
            ''kw_finance'', ''kw_health'']
     \<and> length (numeric_features (load_manifest b)) = 14
     \<and> trigger_features (load_manifest b) = [''triggers'']
     \<and> (\<forall>entry row. add_triggers (load_manifest b) entry row
            = row(''triggers'' \<mapsto> PStr (trig_str (triggers entry))))"
proof -
  from assms obtain f where f: "training = Inr f"
    and b: "b = \<lparr> b_pipeline = Some (pipe f),
                b_numeric_features = Some NUMERIC_FEATURES,
                b_numeric = None,
                b_trigger_features = Some TRIGGER_FEATURES,
                b_trigger_cols = None,
                b_trained_at = Some (now @ ''Z''),
                b_n_train = Some (len_y_tr f),
                b_n_test = Some (len_y_te f),
                b_metrics = Some (mae f, rmse f, r2 f),
                b_version = Some ''1.3.0-notes'' \<rparr>"
    by (auto simp: main_def split: sum.splits)
  have nf: "b_numeric_features b =
           Some [''sleep'', ''energy'', ''mood'', ''anxiety_7d_avg'', ''notes_len'', ''notes_words'',
                 ''notes_sentiment'', ''kw_work'', ''kw_school'', ''kw_exam'', ''kw_sleep'', ''kw_social'',
                 ''kw_finance'', ''kw_health'']"
    by (simp add: b NUMERIC_FEATURES_def BASE_NUMERIC_def NOTE_NUMERIC_def NOTE_KEYWORDS_def)
  have tf: "b_trigger_features b = Some [''triggers'']"
    by (simp add: b TRIGGER_FEATURES_def)
  have lnf: "numeric_features (load_manifest b) =
           [''sleep'', ''energy'', ''mood'', ''anxiety_7d_avg'', ''notes_len'', ''notes_words'',
            ''notes_sentiment'', ''kw_work'', ''kw_school'', ''kw_exam'', ''kw_sleep'', ''kw_social'',
            ''kw_finance'', ''kw_health'']"
    by (simp add: load_manifest_def py_or_def nf)
  have ltf: "trigger_features (load_manifest b) = [''triggers'']"
    by (simp add: load_manifest_def py_or_def tf)
  have len: "length (numeric_features (load_manifest b)) = 14"
    by (simp add: lnf)
  have tr: "\<forall>entry row. add_triggers (load_manifest b) entry row
            = row(''triggers'' \<mapsto> PStr (trig_str (triggers entry)))"
    by (simp add: add_triggers_def ltf)
  show ?thesis
    by (intro conjI) (rule nf tf lnf len ltf tr)+
qed

theorem trainer_manifest_fixed_witness:
  "(\<exists>b. main (Inr sample_fitted) ''2025-08-01T10:12:00'' = Inr b
        \<and> numeric_features (load_manifest b) = NUMERIC_FEATURES
        \<and> trigger_features (load_manifest b) = [''triggers'']
        \<and> b_trained_at b = Some ''2025-08-01T10:12:00Z'')"
proof -
  obtain b where b: "main (Inr sample_fitted) ''2025-08-01T10:12:00'' = Inr (b :: unit model_bundle)"
    by (simp add: main_def)
  have t: "b_trained_at b = Some ''2025-08-01T10:12:00Z''"
    using b by (auto simp: main_def)
  have n: "NUMERIC_FEATURES =
           [''sleep'', ''energy'', ''mood'', ''anxiety_7d_avg'', ''notes_len'', ''notes_words'',
            ''notes_sentiment'', ''kw_work'', ''kw_school'', ''kw_exam'', ''kw_sleep'', ''kw_social'',
            ''kw_finance'', ''kw_health'']"
    by (simp add: NUMERIC_FEATURES_def BASE_NUMERIC_def NOTE_NUMERIC_def NOTE_KEYWORDS_def)
  from trainer_manifest_fixed[OF b] n t b show ?thesis
    by metis
qed

section \<open>The static fallback of the single-shot tip endpoint\<close>

text \<open>
  C7: on \<open>/get-tip\<close>, once the API key is accepted, if the generator raises or the selection
  filter accepts no tip, the response is the three strings of one fixed set joined by
  newlines in their order: the high-anxiety set when the predicted score is at least 7,
  else the moderate set when it is at least 4, else the maintenance set. The endpoint
  returns and does not raise. With a predicted score of 8 and a failing generator the
  response is the three high-anxiety strings.
\<close>

theorem get_tip_fallback:
  assumes "generator req = Inl msg \<or> (\<exists>raw. generator req = Inr raw \<and> select_best_tips raw = [])"
  shows "get_tip generator VALID_CLIENT_KEY req =
      Inr (py_join [CHR 0x0A]
        (if predicted_anxiety req \<ge> 7 then
           [''Take 5 deep breaths and go for a short walk to reduce immediate stress.'',
            ''Try a grounding exercise: name 5 things you can see, 4 you can touch.'',
            ''Limit screen time for 30 minutes to lower cognitive overload.'']
         else if predicted_anxiety req \<ge> 4 then
           [''Write down one worry and schedule a 10-minute worry window later.'',
            ''Journal for 5 minutes to externalize anxious thoughts.'',
            ''Set a small achievable goal for the next hour to regain control.'']
         else
           [''Reflect on one recent success to reinforce positive momentum.'',
            ''Maintain consistent sleep by going to bed 15 minutes earlier tonight.'',
            ''Take time to plan tomorrow so you start with clarity.'']))
    \<and> length (fallback_tips (predicted_anxiety req)) = 3
    \<and> (predicted_anxiety req = 8 \<longrightarrow>
         get_tip generator VALID_CLIENT_KEY req =
           Inr (''Take 5 deep breaths and go for a short walk to reduce immediate stress.'' @ [CHR 0x0A] @
                ''Try a grounding exercise: name 5 things you can see, 4 you can touch.'' @ [CHR 0x0A] @
                ''Limit screen time for 30 minutes to lower cognitive overload.''))"
proof -
  have len: "length (fallback_tips (predicted_anxiety req)) = 3"
    by (simp add: fallback_tips_def)
  then have tk: "take 3 (fallback_tips (predicted_anxiety req)) = fallback_tips (predicted_anxiety req)"
    by simp
  have g: "get_tip generator VALID_CLIENT_KEY req
             = Inr (py_join [CHR 0x0A] (fallback_tips (predicted_anxiety req)))"
    using assms by (auto simp: get_tip_def tk)
  have one: "get_tip generator VALID_CLIENT_KEY req =
      Inr (py_join [CHR 0x0A]
        (if predicted_anxiety req \<ge> 7 then
           [''Take 5 deep breaths and go for a short walk to reduce immediate stress.'',
            ''Try a grounding exercise: name 5 things you can see, 4 you can touch.'',
            ''Limit screen time for 30 minutes to lower cognitive overload.'']
         else if predicted_anxiety req \<ge> 4 then
           [''Write down one worry and schedule a 10-minute worry window later.'',
            ''Journal for 5 minutes to externalize anxious thoughts.'',
            ''Set a small achievable goal for the next hour to regain control.'']
         else
           [''Reflect on one recent success to reinforce positive momentum.'',
            ''Maintain consistent sleep by going to bed 15 minutes earlier tonight.'',
            ''Take time to plan tomorrow so you start with clarity.'']))"
    unfolding g fallback_tips_def by simp
  have eight: "predicted_anxiety req = 8 \<longrightarrow>
         get_tip generator VALID_CLIENT_KEY req =
           Inr (''Take 5 deep breaths and go for a short walk to reduce immediate stress.'' @ [CHR 0x0A] @
                ''Try a grounding exercise: name 5 things you can see, 4 you can touch.'' @ [CHR 0x0A] @
                ''Limit screen time for 30 minutes to lower cognitive overload.'')"
    unfolding g fallback_tips_def by simp
  show ?thesis
    by (intro conjI) (rule one len eight)+
qed

theorem get_tip_fallback_witness:
  "get_tip (\<lambda>req. Inl ''generator disabled'') ''local_secret_key_123'' (sample_request \<lparr> predicted_anxiety := 8 \<rparr>) =
      Inr (''Take 5 deep breaths and go for a short walk to reduce immediate stress.'' @ [CHR 0x0A] @
           ''Try a grounding exercise: name 5 things you can see, 4 you can touch.'' @ [CHR 0x0A] @
           ''Limit screen time for 30 minutes to lower cognitive overload.'')
   \<and> get_tip (\<lambda>req. Inr [''Mon:3, Tue:4, Wed:3'']) ''local_secret_key_123'' (sample_request \<lparr> predicted_anxiety := 2 \<rparr>) =
      Inr (''Reflect on one recent success to reinforce positive momentum.'' @ [CHR 0x0A] @
           ''Maintain consistent sleep by going to bed 15 minutes earlier tonight.'' @ [CHR 0x0A] @
           ''Take time to plan tomorrow so you start with clarity.'')"
proof -
  have k: "VALID_CLIENT_KEY = ''local_secret_key_123''"
    by (simp add: VALID_CLIENT_KEY_def)
  have e: "select_best_tips [''Mon:3, Tue:4, Wed:3''] = []"
    by (simp add: select_best_tips_def py_strip_def strip_chars_def is_space_def py_splitlines_def
        is_linebreak_def strip_numbering_def is_digit_def py_lower_def lower_char_def trend_echo_def
        day_names_def)
  have a: "get_tip (\<lambda>req. Inl ''generator disabled'') ''local_secret_key_123''
             (sample_request \<lparr> predicted_anxiety := 8 \<rparr>) =
      Inr (''Take 5 deep breaths and go for a short walk to reduce immediate stress.'' @ [CHR 0x0A] @
           ''Try a grounding exercise: name 5 things you can see, 4 you can touch.'' @ [CHR 0x0A] @
           ''Limit screen time for 30 minutes to lower cognitive overload.'')"
    using get_tip_fallback[of "\<lambda>req. Inl ''generator disabled''" "sample_request \<lparr> predicted_anxiety := 8 \<rparr>"
        "''generator disabled''"]
    unfolding k by simp
  have b: "get_tip (\<lambda>req. Inr [''Mon:3, Tue:4, Wed:3'']) ''local_secret_key_123''
             (sample_request \<lparr> predicted_anxiety := 2 \<rparr>) =
      Inr (''Reflect on one recent success to reinforce positive momentum.'' @ [CHR 0x0A] @
           ''Maintain consistent sleep by going to bed 15 minutes earlier tonight.'' @ [CHR 0x0A] @
           ''Take time to plan tomorrow so you start with clarity.'')"
    using get_tip_fallback[of "\<lambda>req. Inr [''Mon:3, Tue:4, Wed:3'']" "sample_request \<lparr> predicted_anxiety := 2 \<rparr>"
        "''''"] e
    unfolding k by simp
  from a b show ?thesis by blast
qed

section \<open>The sentiment score\<close>

lemma count_distinct: "length (filter P (remdups xs)) = card (set xs \<inter> {x. P x})"
proof -
  have "distinct (filter P (remdups xs))"
    by simp
  then have "card (set (filter P (remdups xs))) = length (filter P (remdups xs))"
    by (rule distinct_card)
  moreover have "set (filter P (remdups xs)) = set xs \<inter> {x. P x}"
    by auto
  ultimately show ?thesis
    by simp
qed

lemma lexicon_hits:
  "length (filter (\<lambda>w. w \<in> L) (sentiment_words text)) = card (set (sentiment_words text) \<inter> L)"
proof -
  have "length (filter (\<lambda>w. w \<in> L) (sentiment_words text))
          = card (set (map (\<lambda>w. py_lower (py_strip_of ''.,!?'' w)) (py_split text)) \<inter> {x. x \<in> L})"
    unfolding sentiment_words_def by (rule count_distinct)
  then show ?thesis
    by (simp add: sentiment_words_def)
qed

lemma serve_sentiment_card:
  "serve_simple_sentiment text =
     (if text = [] then 0
      else max (-1) (min 1 ((real (card (set (sentiment_words text) \<inter> set serve_POS))
                              - real (card (set (sentiment_words text) \<inter> set serve_NEG))) / 5)))"
  by (simp add: serve_simple_sentiment_def Let_def lexicon_hits)

lemma sentiment_eval_simps:
  "serve_simple_sentiment ''I feel calm and rested'' = 2 / 5"
  "serve_simple_sentiment ''anxious anxious panic panic panic'' = - 2 / 5"
  "serve_simple_sentiment ''Exam coming up next week'' = 0"
  by (simp_all add: serve_simple_sentiment_def sentiment_words_def py_split_def is_space_def
      py_lower_def lower_char_def py_strip_of_def strip_chars_def serve_POS_def serve_NEG_def)

text \<open>
  C5, as the code has it. The score of a non-empty note is (positive hits minus negative
  hits) / 5 clamped to [-1, 1], where the tokens are the whitespace-separated words with
  the characters \<open>. , ! ?\<close> stripped from both ends and lowercased, and a hit is a distinct
  token that is in the lexicon; the empty note scores 0, and so does a note none of whose
  tokens is in a lexicon. Training and serving compute the same score.
  \<open>"I feel calm and rested"\<close> scores 0.4 and \<open>"anxious anxious panic panic panic"\<close> scores -0.4.
\<close>

theorem simple_sentiment_formula:
  "serve_simple_sentiment text =
     (if text = [] then 0
      else max (-1) (min 1 ((real (card (set (sentiment_words text) \<inter> set serve_POS))
                              - real (card (set (sentiment_words text) \<inter> set serve_NEG))) / 5)))
   \<and> set (sentiment_words text) = (\<lambda>w. py_lower (py_strip_of ''.,!?'' w)) ` set (py_split text)
   \<and> train_simple_sentiment text = serve_simple_sentiment text
   \<and> - 1 \<le> serve_simple_sentiment text \<and> serve_simple_sentiment text \<le> 1
   \<and> (set (sentiment_words text) \<inter> (set serve_POS \<union> set serve_NEG) = {}
        \<longrightarrow> serve_simple_sentiment text = 0)
   \<and> serve_simple_sentiment ''I feel calm and rested'' = 2 / 5
   \<and> serve_simple_sentiment ''anxious anxious panic panic panic'' = - 2 / 5"
proof -
  have toks: "set (sentiment_words text) = (\<lambda>w. py_lower (py_strip_of ''.,!?'' w)) ` set (py_split text)"
    by (simp add: sentiment_words_def)
  have lo: "- 1 \<le> serve_simple_sentiment text" and hi: "serve_simple_sentiment text \<le> 1"
    by (simp_all add: serve_simple_sentiment_def Let_def)
  have none: "set (sentiment_words text) \<inter> (set serve_POS \<union> set serve_NEG) = {}
        \<longrightarrow> serve_simple_sentiment text = 0"
  proof
    assume "set (sentiment_words text) \<inter> (set serve_POS \<union> set serve_NEG) = {}"
    then have "set (sentiment_words text) \<inter> set serve_POS = {}"
      "set (sentiment_words text) \<inter> set serve_NEG = {}"
      by blast+
    then show "serve_simple_sentiment text = 0"
      by (simp add: serve_sentiment_card)
  qed
  show ?thesis
    by (intro conjI) (rule serve_sentiment_card toks train_sentiment_eq_serve lo hi none
        sentiment_eval_simps(1) sentiment_eval_simps(2))+
qed

theorem simple_sentiment_formula_witness:
  "serve_simple_sentiment ''Exam coming up next week'' = 0
   \<and> train_simple_sentiment ''I feel calm and rested'' = 2 / 5
   \<and> serve_simple_sentiment ''...calm'' = 1 / 5"
proof -
  have e: "set (sentiment_words ''Exam coming up next week'') \<inter> (set serve_POS \<union> set serve_NEG) = {}"
    by (simp add: sentiment_words_def py_split_def is_space_def py_lower_def lower_char_def
        py_strip_of_def strip_chars_def serve_POS_def serve_NEG_def)
  have c: "set (sentiment_words ''...calm'') = {''calm''}"
    by (simp add: sentiment_words_def py_split_def is_space_def py_lower_def lower_char_def
        py_strip_of_def strip_chars_def)
  have p: "set serve_POS \<inter> {''calm''} = {''calm''}" "set serve_NEG \<inter> {''calm''} = {}"
    by (simp_all add: serve_POS_def serve_NEG_def)
  have "serve_simple_sentiment ''Exam coming up next week'' = 0"
    using simple_sentiment_formula[of "''Exam coming up next week''"] e by blast
  moreover have "train_simple_sentiment ''I feel calm and rested'' = 2 / 5"
  proof -
    from simple_sentiment_formula[of "''I feel calm and rested''"]
    have "train_simple_sentiment ''I feel calm and rested'' = serve_simple_sentiment ''I feel calm and rested''"
      and "serve_simple_sentiment ''I feel calm and rested'' = 2 / 5"
      by blast+
    then show ?thesis by (simp only:)
  qed
  moreover have "serve_simple_sentiment ''...calm'' = 1 / 5"
  proof -
    from simple_sentiment_formula[of "''...calm''"]
    have "serve_simple_sentiment ''...calm'' =
        (if ''...calm'' = [] then 0
         else max (-1) (min 1 ((real (card (set (sentiment_words ''...calm'') \<inter> set serve_POS))
                              - real (card (set (sentiment_words ''...calm'') \<inter> set serve_NEG))) / 5)))"
      by blast
    then show ?thesis
      unfolding c by (simp add: Int_commute p)
  qed
  ultimately show ?thesis by blast
qed

text \<open>
  C5 as stated fails on punctuation before a word: the code strips it and counts the
  word, while stripping only trailing punctuation leaves a token that is in no lexicon.
\<close>

theorem leading_punctuation_counterexample:
  "serve_simple_sentiment ''...calm'' = 1 / 5
   \<and> spec_sentiment ''...calm'' = 0
   \<and> serve_simple_sentiment ''...calm'' \<noteq> spec_sentiment ''...calm''"
proof -
  have a: "serve_simple_sentiment ''...calm'' = 1 / 5"
    by (simp add: serve_simple_sentiment_def sentiment_words_def py_split_def is_space_def
        py_lower_def lower_char_def py_strip_of_def strip_chars_def serve_POS_def serve_NEG_def)
  have b: "spec_sentiment ''...calm'' = 0"
    by (simp add: spec_sentiment_def strip_trailing_def py_split_def is_space_def
        py_lower_def lower_char_def serve_POS_def serve_NEG_def)
  show ?thesis
    unfolding a b by simp
qed

section \<open>The matchers decide the regular expressions\<close>

lemma star_chars_iff: "xs \<in> star (chars p) \<longleftrightarrow> list_all p xs"
proof
  assume "xs \<in> star (chars p)"
  then show "list_all p xs"
    by (induction rule: star.induct) (auto simp: chars_def)
next
  assume "list_all p xs"
  then show "xs \<in> star (chars p)"
  proof (induction xs)
    case Nil
    show ?case by (rule star_empty)
  next
    case (Cons c cs)
    then have "[c] \<in> chars p" "cs \<in> star (chars p)"
      by (simp_all add: chars_def)
    then have "[c] @ cs \<in> star (chars p)"
      by (rule star_step)
    then show ?case by simp
  qed
qed

lemma trend_group_lang_iff:
  "g \<in> trend_group_lang \<longleftrightarrow>
     (\<exists>a b c e ss. g = a # b # c # CHR '':'' # e # ss \<and> [a, b, c] \<in> set day_names
        \<and> is_digit e \<and> list_all trend_separator ss)"
proof
  assume "g \<in> trend_group_lang"
  then obtain d e ss where g: "g = d @ '':'' @ [e] @ ss" and d: "d \<in> set day_names"
    and e: "is_digit e" and ss: "ss \<in> star (chars trend_separator)"
    by (auto simp: trend_group_lang_def conc_def chars_def)
  from d obtain a b c where "d = [a, b, c]"
    by (auto simp: day_names_def)
  with g d e ss show "\<exists>a b c e ss. g = a # b # c # CHR '':'' # e # ss \<and> [a, b, c] \<in> set day_names
        \<and> is_digit e \<and> list_all trend_separator ss"
    by (auto simp: star_chars_iff)
next
  assume "\<exists>a b c e ss. g = a # b # c # CHR '':'' # e # ss \<and> [a, b, c] \<in> set day_names
        \<and> is_digit e \<and> list_all trend_separator ss"
  then obtain a b c e ss where g: "g = [a, b, c] @ '':'' @ [e] @ ss" and d: "[a, b, c] \<in> set day_names"
    and e: "is_digit e" and ss: "ss \<in> star (chars trend_separator)"
    by (auto simp: star_chars_iff)
  from e have "[e] \<in> chars is_digit" by (simp add: chars_def)
  with g d ss show "g \<in> trend_group_lang"
    unfolding trend_group_lang_def conc_def by blast
qed

lemma day_not_separator: "[a, b, c] \<in> set day_names \<Longrightarrow> \<not> trend_separator a \<and> \<not> is_space a"
  by (auto simp: day_names_def trend_separator_def is_space_def)

lemma trend_tail_separators: "list_all trend_separator ss \<Longrightarrow> trend_tail (ss @ t) = trend_tail t"
  by (induction ss) (simp_all add: trend_separator_def)

lemma trend_tail_group:
  assumes "g \<in> trend_group_lang"
  shows "trend_tail (g @ t) = trend_tail t" and "trend_groups (g @ t) = trend_tail t"
proof -
  from assms obtain a b c e ss where g: "g = a # b # c # CHR '':'' # e # ss"
    and d: "[a, b, c] \<in> set day_names" and e: "is_digit e" and ss: "list_all trend_separator ss"
    unfolding trend_group_lang_iff by blast
  show 2: "trend_groups (g @ t) = trend_tail t"
    using d e by (simp add: g trend_tail_separators[OF ss])
  have "trend_tail (g @ t) = trend_groups (g @ t)"
    using day_not_separator[OF d] by (simp add: g trend_separator_def)
  with 2 show "trend_tail (g @ t) = trend_tail t"
    by simp
qed

lemma star_groups_tail: "t \<in> star trend_group_lang \<Longrightarrow> trend_tail t"
  by (induction rule: star.induct) (simp_all add: trend_tail_group)

lemma matcher_sound:
  "(trend_groups s \<longrightarrow> s \<in> conc trend_group_lang (star trend_group_lang))
   \<and> (trend_tail s \<longrightarrow> (\<exists>ss t. s = ss @ t \<and> list_all trend_separator ss \<and> t \<in> star trend_group_lang))"
proof (induction s rule: length_induct)
  case (1 s)
  have groups: "s \<in> conc trend_group_lang (star trend_group_lang)" if tg: "trend_groups s"
  proof -
    from tg obtain a b c d e rest where s: "s = a # b # c # d # e # rest"
      by (cases s rule: trend_groups.cases) auto
    from tg s have day: "[a, b, c] \<in> set day_names" and col: "d = CHR '':''" and dig: "is_digit e"
      and tl: "trend_tail rest"
      by simp_all
    have "length rest < length s" by (simp add: s)
    with 1 tl obtain ss t where rest: "rest = ss @ t" and ss: "list_all trend_separator ss"
      and t: "t \<in> star trend_group_lang"
      by blast
    have "a # b # c # CHR '':'' # e # ss \<in> trend_group_lang"
      unfolding trend_group_lang_iff using day dig ss by blast
    moreover have "s = (a # b # c # CHR '':'' # e # ss) @ t"
      by (simp add: s col rest)
    ultimately show ?thesis
      using t unfolding conc_def by blast
  qed
  have tail: "\<exists>ss t. s = ss @ t \<and> list_all trend_separator ss \<and> t \<in> star trend_group_lang"
    if tt: "trend_tail s"
  proof (cases s)
    case Nil
    then show ?thesis
      using star_empty by fastforce
  next
    case (Cons x xs)
    show ?thesis
    proof (cases "trend_separator x")
      case True
      with tt Cons have "trend_tail xs"
        by (simp add: trend_separator_def)
      moreover have "length xs < length s" by (simp add: Cons)
      ultimately obtain ss t where "xs = ss @ t" "list_all trend_separator ss" "t \<in> star trend_group_lang"
        using 1 by blast
      with True Cons have "s = (x # ss) @ t \<and> list_all trend_separator (x # ss) \<and> t \<in> star trend_group_lang"
        by simp
      then show ?thesis by blast
    next
      case False
      with tt Cons have "trend_groups s"
        by (simp add: trend_separator_def)
      from groups[OF this] obtain g t where "s = g @ t" "g \<in> trend_group_lang" "t \<in> star trend_group_lang"
        unfolding conc_def by blast
      then have "s \<in> star trend_group_lang"
        using star_step by blast
      then have "s = [] @ s \<and> list_all trend_separator [] \<and> s \<in> star trend_group_lang"
        by simp
      then show ?thesis by blast
    qed
  qed
  from groups tail show ?case by blast
qed

lemma trend_groups_iff: "trend_groups s \<longleftrightarrow> s \<in> conc trend_group_lang (star trend_group_lang)"
proof
  assume "trend_groups s"
  then show "s \<in> conc trend_group_lang (star trend_group_lang)"
    using matcher_sound by blast
next
  assume "s \<in> conc trend_group_lang (star trend_group_lang)"
  then obtain g t where "s = g @ t" "g \<in> trend_group_lang" "t \<in> star trend_group_lang"
    unfolding conc_def by blast
  then show "trend_groups s"
    by (simp add: trend_tail_group star_groups_tail)
qed

lemma trend_groups_no_space: "trend_groups s \<Longrightarrow> dropWhile is_space s = s"
proof -
  assume tg: "trend_groups s"
  then obtain a b c d e rest where s: "s = a # b # c # d # e # rest"
    by (cases s rule: trend_groups.cases) auto
  with tg have "[a, b, c] \<in> set day_names" by simp
  then have "\<not> is_space a" by (simp add: day_not_separator)
  then show ?thesis by (simp add: s)
qed

lemma trend_groups_not_tip: "trend_groups s \<Longrightarrow> \<not> py_startswith ''tip'' s"
proof -
  assume tg: "trend_groups s"
  then obtain a b c d e rest where s: "s = a # b # c # d # e # rest"
    by (cases s rule: trend_groups.cases) auto
  with tg have "[a, b, c] \<in> set day_names" by simp
  then show ?thesis by (auto simp: s day_names_def py_startswith_def)
qed

lemma py_startswith_split: "py_startswith p s \<Longrightarrow> s = p @ drop (length p) s"
  by (metis append_take_drop_id py_startswith_def)

lemma dropWhile_spaces_append:
  "list_all is_space w \<Longrightarrow> dropWhile is_space r = r \<Longrightarrow> dropWhile is_space (w @ r) = r"
  by (induction w) simp_all

text \<open>
  \<open>re.fullmatch\<close> succeeds exactly on the strings of the pattern's language, and
  \<open>trend_echo\<close> is true exactly on them.
\<close>

lemma trend_echo_decides: "trend_echo low \<longleftrightarrow> low \<in> trend_echo_lang"
proof
  let ?P = "conc trend_group_lang (star trend_group_lang)"
  assume te: "trend_echo low"
  have pre: "low \<in> trend_echo_lang"
    if p: "p = ''tip'' \<or> p = ''tips''" and low: "low = p @ '':'' @ r"
      and tg: "trend_groups (dropWhile is_space r)" for p r
  proof -
    have "list_all is_space (takeWhile is_space r)"
      by (simp add: list_all_iff) (meson set_takeWhileD)
    then have "takeWhile is_space r \<in> star (chars is_space)"
      by (simp add: star_chars_iff)
    then have "p @ '':'' @ takeWhile is_space r
                 \<in> conc {''tip'', ''tips''} (conc {'':''} (star (chars is_space)))"
      using p unfolding conc_def by blast
    moreover have "dropWhile is_space r \<in> ?P"
      using tg by (simp add: trend_groups_iff)
    moreover have "low = (p @ '':'' @ takeWhile is_space r) @ dropWhile is_space r"
      by (simp add: low)
    ultimately show ?thesis
      unfolding trend_echo_lang_def conc_def[of _ ?P] by blast
  qed
  from te consider
      (plain) "trend_groups low"
    | (tips) "py_startswith ''tips:'' low" "trend_groups (dropWhile is_space (drop 5 low))"
    | (tip) "py_startswith ''tip:'' low" "trend_groups (dropWhile is_space (drop 4 low))"
    unfolding trend_echo_def by blast
  then show "low \<in> trend_echo_lang"
  proof cases
    case plain
    then have "low \<in> ?P" by (simp add: trend_groups_iff)
    then have "[] @ low \<in> trend_echo_lang"
      unfolding trend_echo_lang_def conc_def[of _ ?P] by blast
    then show ?thesis by simp
  next
    case tips
    from py_startswith_split[OF tips(1)] have "low = ''tips'' @ '':'' @ drop 5 low"
      by (simp add: eval_nat_numeral)
    then show ?thesis
      using pre[of "''tips''" "drop 5 low"] tips(2) by blast
  next
    case tip
    from py_startswith_split[OF tip(1)] have "low = ''tip'' @ '':'' @ drop 4 low"
      by (simp add: eval_nat_numeral)
    then show ?thesis
      using pre[of "''tip''" "drop 4 low"] tip(2) by blast
  qed
next
  let ?P = "conc trend_group_lang (star trend_group_lang)"
  assume "low \<in> trend_echo_lang"
  then obtain p r where low: "low = p @ r"
    and p: "p = [] \<or> p \<in> conc {''tip'', ''tips''} (conc {'':''} (star (chars is_space)))"
    and r: "r \<in> ?P"
    unfolding trend_echo_lang_def conc_def[of _ ?P] by blast
  from r have tg: "trend_groups r" by (simp add: trend_groups_iff)
  from p show "trend_echo low"
  proof
    assume "p = []"
    with low tg show ?thesis by (simp add: trend_echo_def)
  next
    assume "p \<in> conc {''tip'', ''tips''} (conc {'':''} (star (chars is_space)))"
    then obtain q w where pq: "p = q @ '':'' @ w" and q: "q = ''tip'' \<or> q = ''tips''"
      and w: "list_all is_space w"
      by (auto simp: conc_def star_chars_iff)
    have d: "dropWhile is_space (w @ r) = r"
      using w trend_groups_no_space[OF tg] by (rule dropWhile_spaces_append)
    from q show ?thesis
    proof
      assume "q = ''tip''"
      then have "py_startswith ''tip:'' low" "drop 4 low = w @ r"
        by (simp_all add: low pq py_startswith_def)
      with d tg show ?thesis by (simp add: trend_echo_def)
    next
      assume "q = ''tips''"
      then have "py_startswith ''tips:'' low" "drop 5 low = w @ r"
        by (simp_all add: low pq py_startswith_def)
      with d tg show ?thesis by (simp add: trend_echo_def)
    qed
  qed
qed

text \<open>
  \<open>re.sub\<close> with the anchored pattern removes the match at the start of the line, and the
  greedy \<open>\s*\<close> takes all the whitespace there is: when the line is a string of the
  language followed by a rest that does not begin with whitespace, \<open>strip_numbering\<close>
  returns the rest; when no prefix of the line is in the language, it returns the line.
\<close>

lemma strip_numbering_match:
  assumes "p \<in> numbering_lang" and "dropWhile is_space r = r"
  shows "strip_numbering (p @ r) = r"
proof -
  from assms(1) obtain a ds b ws where pa: "p = (a @ ds) @ (b @ ws)"
    and a: "a \<in> chars is_digit" and ds: "ds \<in> star (chars is_digit)"
    and b: "b = ''.'' \<or> b = '')''" and w: "ws \<in> star (chars is_space)"
    unfolding numbering_lang_def conc_def by blast
  from a obtain d where ad: "a = [d]" and "is_digit d"
    unfolding chars_def by blast
  from b obtain c where bc: "b = [c]" and c: "c = CHR ''.'' \<or> c = CHR '')''"
    by blast
  have d: "is_digit d" "list_all is_digit ds" and ws: "list_all is_space ws"
    using \<open>is_digit d\<close> ds w by (simp_all add: star_chars_iff)
  have p: "p = (d # ds) @ [c] @ ws"
    by (simp add: pa ad bc)
  from c have nd: "\<not> is_digit c" by (auto simp: is_digit_def)
  have all: "\<forall>x\<in>set (d # ds). is_digit x"
    using d by (simp add: list_all_iff)
  have dw: "dropWhile is_digit (p @ r) = c # ws @ r"
    unfolding p using dropWhile_append2[of "d # ds" is_digit "[c] @ ws @ r"] all nd by simp
  have tw: "takeWhile is_digit (p @ r) = d # ds"
    unfolding p using takeWhile_append2[of "d # ds" is_digit "[c] @ ws @ r"] all nd by simp
  have "dropWhile is_space (ws @ r) = r"
    using ws assms(2) by (rule dropWhile_spaces_append)
  then show ?thesis
    using c by (auto simp: strip_numbering_def dw tw)
qed

lemma strip_numbering_no_match:
  assumes "\<And>p r. line = p @ r \<Longrightarrow> p \<notin> numbering_lang"
  shows "strip_numbering line = line"
proof (rule ccontr)
  assume changed: "strip_numbering line \<noteq> line"
  then obtain c rest where dw: "dropWhile is_digit line = c # rest"
    and tw: "takeWhile is_digit line \<noteq> []" and c: "c = CHR ''.'' \<or> c = CHR '')''"
    by (auto simp: strip_numbering_def split: list.splits if_splits)
  from tw obtain d ds where ds: "takeWhile is_digit line = d # ds"
    by (cases "takeWhile is_digit line") auto
  have "\<forall>x\<in>set (takeWhile is_digit line). is_digit x"
    by (meson set_takeWhileD)
  then have dig: "is_digit d" "list_all is_digit ds"
    by (simp_all add: ds list_all_iff)
  have "[d] \<in> chars is_digit"
    using dig(1) by (simp add: chars_def)
  moreover have "ds \<in> star (chars is_digit)"
    using dig(2) by (simp add: star_chars_iff)
  ultimately have "[d] \<in> chars is_digit" "ds \<in> star (chars is_digit)"
    by blast+
  then have "[d] @ ds \<in> conc (chars is_digit) (star (chars is_digit))"
    unfolding conc_def by blast
  moreover have "[c] @ [] \<in> conc {''.'', '')''} (star (chars is_space))"
    using c star_empty unfolding conc_def by blast
  ultimately have "([d] @ ds) @ ([c] @ []) \<in> numbering_lang"
    unfolding numbering_lang_def conc_def[of "conc (chars is_digit) (star (chars is_digit))"] by blast
  moreover have "line = (([d] @ ds) @ ([c] @ [])) @ rest"
    using takeWhile_dropWhile_id[of is_digit line] by (simp add: ds dw)
  ultimately show False
    using assms by blast
qed

section \<open>The tip selection filter\<close>
























end
